theory Spec2Isabelle
  imports Complex_Main
begin

section \<open>Errors and array primitives\<close>

text \<open>
  The exceptions the modelled functions can raise.  The peak finders raise
  \<^verbatim>\<open>ValueError('not enough number of peaks! change parameters.')\<close>, here
  \<open>InsufficientPeaks\<close>.  The buffer arithmetic raises
  \<^verbatim>\<open>Exception('Cannot add two signals that have a different number of channels!')\<close>
  and the sample-rate twin of it, here \<open>ChannelMismatch\<close> and \<open>RateMismatch\<close>.
  The other constructors are raised by numpy itself: an index out of bounds
  (\<open>IndexError\<close>; \<open>InvalidChannelCount\<close> when the index is the channel row
  \<^verbatim>\<open>x[c, :]\<close> of the mixture), operands that cannot be broadcast together
  (\<open>BroadcastError\<close>), a matrix product of shapes that are not aligned
  (\<open>ShapeError\<close>), the maximum of an empty array (\<open>EmptyArray\<close>).
  \<open>NotANumber\<close> is not an exception: it marks an array whose entries are the
  quotient of a division by zero, which numpy fills with \<^verbatim>\<open>nan\<close> or \<^verbatim>\<open>inf\<close>
  and which has no value among the reals.
\<close>

datatype error =
    InsufficientPeaks
  | ChannelMismatch
  | RateMismatch
  | InvalidChannelCount
  | IndexError
  | BroadcastError
  | ShapeError
  | EmptyArray
  | NotANumber

type_synonym matrix = "real list list"

text \<open>Shape of a rectangular array: \<open>r\<close> rows of \<open>c\<close> entries each.\<close>

definition is_matrix :: "'a list list \<Rightarrow> nat \<Rightarrow> nat \<Rightarrow> bool" where
  "is_matrix M r c = (length M = r \<and> list_all (\<lambda>row. length row = c) M)"

definition ncols :: "'a list list \<Rightarrow> nat" where
  "ncols M = (case M of [] \<Rightarrow> 0 | row # _ \<Rightarrow> length row)"

text \<open>Every entry of the array is nonnegative.\<close>

definition nonneg :: "matrix \<Rightarrow> bool" where
  "nonneg M = list_all (list_all (\<lambda>x. 0 \<le> x)) M"

text \<open>
  Python's slice bounds: a negative bound counts from the end, and every
  bound is clipped to the array.  \<^verbatim>\<open>a[lo:hi]\<close> is empty when the clipped
  \<open>lo\<close> is not below the clipped \<open>hi\<close>.
\<close>

definition slice_bound :: "nat \<Rightarrow> int \<Rightarrow> nat" where
  "slice_bound n i = (if i < 0 then nat (max 0 (int n + i)) else min n (nat i))"

text \<open>\<^verbatim>\<open>a[lo:hi] = 0\<close> on a vector.\<close>

definition zero_slice :: "int \<Rightarrow> int \<Rightarrow> real list \<Rightarrow> real list" where
  "zero_slice lo hi xs =
     (let a = slice_bound (length xs) lo; b = slice_bound (length xs) hi
      in if a < b then take a xs @ replicate (b - a) 0 @ drop b xs else xs)"

text \<open>\<^verbatim>\<open>a[rlo:rhi, clo:chi] = 0\<close> on a matrix.\<close>

definition zero_block :: "int \<Rightarrow> int \<Rightarrow> int \<Rightarrow> int \<Rightarrow> matrix \<Rightarrow> matrix" where
  "zero_block rlo rhi clo chi M =
     (let a = slice_bound (length M) rlo; b = slice_bound (length M) rhi
      in if a < b
         then take a M @ map (zero_slice clo chi) (take (b - a) (drop a M)) @ drop b M
         else M)"

text \<open>
  \<^verbatim>\<open>np.argmax\<close>: the first index at which the maximum is attained.  The scan
  keeps the best index and value so far and moves on a strictly larger entry.
\<close>

fun argmax_from :: "real list \<Rightarrow> nat \<Rightarrow> nat \<Rightarrow> real \<Rightarrow> nat" where
  "argmax_from [] i bi bv = bi"
| "argmax_from (x # xs) i bi bv =
     (if bv < x then argmax_from xs (Suc i) i x else argmax_from xs (Suc i) bi bv)"

definition argmax :: "real list \<Rightarrow> nat" where
  "argmax xs = (case xs of [] \<Rightarrow> 0 | x # ys \<Rightarrow> argmax_from ys 1 0 x)"

text \<open>
  \<^verbatim>\<open>np.size(np.nonzero(data))\<close> where \<open>data\<close> is a two-dimensional
  \<^verbatim>\<open>np.mat\<close>: \<^verbatim>\<open>np.nonzero\<close> returns one index array per dimension (the
  row indices and the column indices of the nonzero entries), and
  \<^verbatim>\<open>np.size\<close> of that pair counts the entries of both arrays.
\<close>

definition nonzero_size :: "matrix \<Rightarrow> nat" where
  "nonzero_size M = 2 * length (filter (\<lambda>x. x \<noteq> 0) (concat M))"

section \<open>Peak finder in one dimension\<close>

text \<open>
  \<^verbatim>\<open>find_peaks\<close> of DUET.py, which is \<^verbatim>\<open>Repet.FindPeaks\<close> of Repet.py
  line for line.  \<^verbatim>\<open>data = np.mat(data)\<close> makes the vector a matrix of one
  row; \<^verbatim>\<open>np.multiply(data, data >= min_thr)\<close> zeroes the entries below the
  threshold.  The loop writes the argmax into \<open>Pi[0, i]\<close>, zeroes the slice
  \<^verbatim>\<open>data[0, Pi[0,i] - min_dist - 1 : Pi[0,i] + min_dist + 1]\<close> and stops
  early once the data sum to zero; the entries of \<open>Pi\<close> it has not reached
  keep their initial zero.
\<close>

definition threshold :: "real \<Rightarrow> real list \<Rightarrow> real list" where
  "threshold min_thr data = map (\<lambda>x. x * (if min_thr \<le> x then 1 else 0)) data"

function find_peaks_loop :: "real list \<Rightarrow> int \<Rightarrow> nat \<Rightarrow> nat \<Rightarrow> nat list \<Rightarrow> nat list" where
  "find_peaks_loop data min_dist max_num i Pi =
     (if i < max_num
      then let p = argmax data;
               Pi' = Pi[i := p];
               data' = zero_slice (int p - min_dist - 1) (int p + min_dist + 1) data
           in if sum_list data' = 0 then Pi'
              else find_peaks_loop data' min_dist max_num (Suc i) Pi'
      else Pi)"
  by pat_completeness auto
termination
  by (relation "measure (\<lambda>(data, min_dist, max_num, i, Pi). max_num - i)") auto

declare find_peaks_loop.simps [simp del]

definition find_peaks :: "real list \<Rightarrow> real \<Rightarrow> int option \<Rightarrow> nat \<Rightarrow> error + nat list" where
  "find_peaks data0 min_thr min_dist0 max_num =
     (let lenData = length data0;
          min_dist = (case min_dist0 of None \<Rightarrow> int (lenData div 4) | Some d \<Rightarrow> d);
          Pi = replicate max_num 0;
          data = threshold min_thr data0
      in if nonzero_size [data] < max_num then Inl InsufficientPeaks
         else Inr (sort (find_peaks_loop data min_dist max_num 0 Pi)))"

text \<open>The number of entries of \<open>v\<close> that reach the threshold \<open>\<theta>\<close>.\<close>

definition reach_count :: "real \<Rightarrow> real list \<Rightarrow> nat" where
  "reach_count \<theta> v = length (filter (\<lambda>x. \<theta> \<le> x) v)"

text \<open>The number of entries that reach the threshold and are not zero.\<close>

definition candidate_count :: "real \<Rightarrow> real list \<Rightarrow> nat" where
  "candidate_count \<theta> v = length (filter (\<lambda>x. \<theta> \<le> x \<and> x \<noteq> 0) v)"

section \<open>Peak finder in two dimensions\<close>

text \<open>
  \<^verbatim>\<open>find_peaks2\<close> of DUET.py.  \<^verbatim>\<open>data = np.mat(data)\<close> makes the input a
  numpy matrix, and on numpy matrices \<^verbatim>\<open>*\<close> is the matrix product: the line
  \<^verbatim>\<open>data = data * (data >= min_thr)\<close> multiplies the data by its own 0/1
  indicator matrix, and raises when the data are not square.  (The
  one-dimensional finder calls \<^verbatim>\<open>np.multiply\<close>, which is elementwise.)
\<close>

definition indicator_ge :: "real \<Rightarrow> matrix \<Rightarrow> matrix" where
  "indicator_ge min_thr M = map (map (\<lambda>x. if min_thr \<le> x then 1 else 0)) M"

definition mat_mult :: "matrix \<Rightarrow> matrix \<Rightarrow> matrix" where
  "mat_mult A B =
     map (\<lambda>row. map (\<lambda>j. sum_list (map2 (\<lambda>a brow. a * brow ! j) row B)) [0..<ncols B]) A"

function find_peaks2_loop ::
  "matrix \<Rightarrow> int \<Rightarrow> int \<Rightarrow> nat \<Rightarrow> nat \<Rightarrow> (nat \<times> nat) list \<Rightarrow> (nat \<times> nat) list" where
  "find_peaks2_loop data Rmd Cmd max_num i Pi =
     (if i < max_num
      then let p = argmax (concat data);
               r = p div ncols data;
               c = p mod ncols data;
               Pi' = Pi[i := (r, c)];
               data' = zero_block (int r - Rmd - 1) (int r + Rmd + 1)
                                  (int c - Cmd - 1) (int c + Cmd + 1) data
           in if sum_list (concat data') = 0 then Pi'
              else find_peaks2_loop data' Rmd Cmd max_num (Suc i) Pi'
      else Pi)"
  by pat_completeness auto
termination
  by (relation "measure (\<lambda>(data, Rmd, Cmd, max_num, i, Pi). max_num - i)") auto

declare find_peaks2_loop.simps [simp del]

definition find_peaks2 ::
  "matrix \<Rightarrow> real \<Rightarrow> (int \<times> int) option \<Rightarrow> nat \<Rightarrow> error + (nat \<times> nat) list" where
  "find_peaks2 data0 min_thr min_dist0 max_num =
     (let Rdata = length data0;
          Cdata = ncols data0;
          min_dist = (case min_dist0 of
                        None \<Rightarrow> (int (Rdata div 4), int (Cdata div 4))
                      | Some d \<Rightarrow> d);
          Pi = replicate max_num (0, 0);
          Rmd = fst min_dist;
          Cmd = snd min_dist
      in if Cdata \<noteq> Rdata then Inl ShapeError
         else let data = mat_mult data0 (indicator_ge min_thr data0)
              in if nonzero_size data < max_num then Inl InsufficientPeaks
                 else Inr (find_peaks2_loop data Rmd Cmd max_num 0 Pi))"

section \<open>Smoothing kernel\<close>

text \<open>
  \<^verbatim>\<open>scipy.signal.convolve2d\<close> in its two modes.  In full mode the output has
  \<open>m + p - 1\<close> by \<open>n + q - 1\<close> entries and entry \<open>(i, j)\<close> sums
  \<open>A[a, b] * B[i - a, j - b]\<close> over the entries of \<open>A\<close>, with \<open>B\<close> read
  as zero outside its bounds.  Valid mode keeps the entries of the full
  output that need no padding: \<open>m - p + 1\<close> by \<open>n - q + 1\<close> of them.
\<close>

definition mget :: "matrix \<Rightarrow> int \<Rightarrow> int \<Rightarrow> real" where
  "mget B i j =
     (if 0 \<le> i \<and> i < int (length B) \<and> 0 \<le> j \<and> j < int (ncols B)
      then B ! nat i ! nat j else 0)"

definition convolve2d_full :: "matrix \<Rightarrow> matrix \<Rightarrow> matrix" where
  "convolve2d_full A B =
     (let m = length A; n = ncols A; p = length B; q = ncols B
      in map (\<lambda>i. map (\<lambda>j.
               (\<Sum>a\<leftarrow>[0..<m]. \<Sum>b\<leftarrow>[0..<n]. A ! a ! b * mget B (int i - int a) (int j - int b)))
             [0..<n + q - 1]) [0..<m + p - 1])"

definition convolve2d_valid :: "matrix \<Rightarrow> matrix \<Rightarrow> matrix" where
  "convolve2d_valid A B =
     (let m = length A; n = ncols A; p = length B; q = ncols B
      in map (\<lambda>i. map (\<lambda>j.
               (\<Sum>a\<leftarrow>[0..<p]. \<Sum>b\<leftarrow>[0..<q]. B ! a ! b * A ! (i + p - 1 - a) ! (j + q - 1 - b)))
             [0..<n + 1 - q]) [0..<m + 1 - p])"

text \<open>\<^verbatim>\<open>Kmat[::-1, ::-1]\<close>: both axes reversed.\<close>

definition flip2 :: "matrix \<Rightarrow> matrix" where
  "flip2 K = rev (map rev K)"

definition ones :: "nat \<Rightarrow> nat \<Rightarrow> matrix" where
  "ones r c = replicate r (replicate c 1)"

definition scale :: "real \<Rightarrow> matrix \<Rightarrow> matrix" where
  "scale s M = map (map (\<lambda>x. x * s)) M"

text \<open>
  The kernel argument: a size, or an array of kernel values.  An array of a
  single entry takes the branch of the size, as the test
  \<^verbatim>\<open>np.prod(np.shape(Kernel)) == 1\<close> has it.
\<close>

datatype kernel = KSize nat | KMat matrix

definition kernel_matrix :: "kernel \<Rightarrow> matrix" where
  "kernel_matrix Kernel =
     (case Kernel of
        KSize k \<Rightarrow> scale (1 / (real k)\<^sup>2) (ones k k)
      | KMat K \<Rightarrow>
          if length K * ncols K = 1
          then (let x = K ! 0 ! 0; k = nat \<lfloor>x\<rfloor> in scale (1 / x\<^sup>2) (ones k k))
          else K)"

text \<open>
  The augmented matrix of \<^verbatim>\<open>twoDsmooth\<close>: \<open>copyrow\<close> rows above and below
  and \<open>copycol\<close> columns on either side.  The three blocks of the source
  are kept as they are written there: the corners of the top block are
  \<^verbatim>\<open>Mat[0, 0]\<close> and \<^verbatim>\<open>Mat[0, -1]\<close>, those of the bottom block
  \<^verbatim>\<open>Mat[-1, 1]\<close> and \<^verbatim>\<open>Mat[-1, -1]\<close>.  Reading \<^verbatim>\<open>Mat[0, 0]\<close> raises on
  an empty matrix, reading \<^verbatim>\<open>Mat[-1, 1]\<close> on a matrix of one column.
\<close>

definition augMat :: "matrix \<Rightarrow> nat \<Rightarrow> nat \<Rightarrow> error + matrix" where
  "augMat Mat copyrow copycol =
     (if Mat = [] \<or> ncols Mat = 0 then Inl IndexError
      else if ncols Mat < 2 then Inl IndexError
      else let top = hd Mat; bot = last Mat
           in Inr (replicate copyrow
                     (replicate copycol (top ! 0) @ top @ replicate copycol (last top))
                   @ map (\<lambda>row. replicate copycol (row ! 0) @ row @ replicate copycol (last row)) Mat
                   @ replicate copyrow
                     (replicate copycol (bot ! 1) @ bot @ replicate copycol (last bot))))"

definition twoDsmooth :: "matrix \<Rightarrow> kernel \<Rightarrow> error + matrix" where
  "twoDsmooth Mat Kernel =
     (let Kmat0 = kernel_matrix Kernel;
          krow0 = length Kmat0;
          kcol0 = ncols Kmat0;
          Kmat1 = (if krow0 mod 2 = 0
                   then scale (1 / 2) (convolve2d_full Kmat0 (ones 2 1)) else Kmat0);
          krow = (if krow0 mod 2 = 0 then krow0 + 1 else krow0);
          Kmat = (if kcol0 mod 2 = 0
                  then scale (1 / 2) (convolve2d_full Kmat1 (ones 1 2)) else Kmat1);
          kcol = (if kcol0 mod 2 = 0 then kcol0 + 1 else kcol0);
          copyrow = krow div 2;
          copycol = kcol div 2
      in case augMat Mat copyrow copycol of
           Inl e \<Rightarrow> Inl e
         | Inr aug \<Rightarrow> Inr (convolve2d_valid aug (flip2 Kmat)))"

section \<open>DUET: the attenuation-delay histogram\<close>

text \<open>
  \<^verbatim>\<open>np.histogram2d\<close> with \<^verbatim>\<open>bins = [a_num, d_num]\<close>, a \<^verbatim>\<open>range\<close> and
  \<^verbatim>\<open>weights\<close>.  Each axis is cut into bins of equal width, closed below and
  open above, the last one closed above as well; a sample outside the range
  of either axis is dropped; every other sample adds its weight to the bin
  of its pair of indices.  The bin edges are \<^verbatim>\<open>np.linspace(lo, hi, n + 1)\<close>.
\<close>

definition bin_of :: "real \<Rightarrow> real \<Rightarrow> nat \<Rightarrow> real \<Rightarrow> nat option" where
  "bin_of lo hi n v =
     (if v < lo \<or> hi < v then None
      else if v = hi then Some (n - 1)
      else Some (nat \<lfloor>(v - lo) * real n / (hi - lo)\<rfloor>))"

definition histogram2d ::
  "real list \<Rightarrow> real list \<Rightarrow> nat \<Rightarrow> nat \<Rightarrow> real \<Rightarrow> real \<Rightarrow> real \<Rightarrow> real \<Rightarrow> real list \<Rightarrow> matrix" where
  "histogram2d xs ys nx ny xlo xhi ylo yhi ws =
     map (\<lambda>i. map (\<lambda>j.
            sum_list (map (\<lambda>(x, y, w).
                        if bin_of xlo xhi nx x = Some i \<and> bin_of ylo yhi ny y = Some j
                        then w else 0)
                      (zip xs (zip ys ws))))
          [0..<ny]) [0..<nx]"

definition linspace :: "real \<Rightarrow> real \<Rightarrow> nat \<Rightarrow> real list" where
  "linspace lo hi n = map (\<lambda>i. lo + (hi - lo) * real i / real n) [0..<n + 1]"

text \<open>
  \<^verbatim>\<open>hist / hist.max()\<close>.  \<^verbatim>\<open>max\<close> raises on an empty array.  Where the
  maximum is zero numpy divides all the same, with a warning and no
  exception, and the quotients are \<^verbatim>\<open>nan\<close> (or infinite): the result is
  then \<open>NotANumber\<close>.
\<close>

definition mat_max :: "matrix \<Rightarrow> real" where
  "mat_max M = Max (set (concat M))"

definition normalize :: "matrix \<Rightarrow> error + matrix" where
  "normalize M =
     (if concat M = [] then Inl EmptyArray
      else if mat_max M = 0 then Inl NotANumber
      else Inr (map (map (\<lambda>x. x / mat_max M)) M))"

text \<open>
  Lines 119 to 131 of \<^verbatim>\<open>duet\<close>: the weighted histogram of the in-bounds
  estimates, \<open>hist0\<close> its first normalisation, then the smoothing by the
  3-by-3 average and the second normalisation.
\<close>

definition duet_hist0 ::
  "real list \<Rightarrow> real list \<Rightarrow> real list \<Rightarrow> nat \<Rightarrow> nat \<Rightarrow> real \<Rightarrow> real \<Rightarrow> real \<Rightarrow> real
     \<Rightarrow> error + matrix" where
  "duet_hist0 alpha_vec delta_vec tfw_vec a_num d_num a_min a_max d_min d_max =
     normalize (histogram2d alpha_vec delta_vec a_num d_num a_min a_max d_min d_max tfw_vec)"

definition duet_hist ::
  "real list \<Rightarrow> real list \<Rightarrow> real list \<Rightarrow> nat \<Rightarrow> nat \<Rightarrow> real \<Rightarrow> real \<Rightarrow> real \<Rightarrow> real
     \<Rightarrow> error + matrix" where
  "duet_hist alpha_vec delta_vec tfw_vec a_num d_num a_min a_max d_min d_max =
     (case duet_hist0 alpha_vec delta_vec tfw_vec a_num d_num a_min a_max d_min d_max of
        Inl e \<Rightarrow> Inl e
      | Inr hist0 \<Rightarrow>
          (case twoDsmooth hist0 (KSize 3) of
             Inl e \<Rightarrow> Inl e
           | Inr hist1 \<Rightarrow> normalize hist1))"

section \<open>DUET: the maximum-likelihood masks\<close>

text \<open>
  Lines 171 to 177 of \<^verbatim>\<open>duet\<close>.  \<open>bestsofar\<close> starts at \<^verbatim>\<open>np.inf\<close>, here
  \<open>None\<close>, and \<open>bestind\<close> at zero.  For each source in turn the score of
  every bin is computed, and the bins where it is strictly below the best
  so far take the index and the score of the source.
\<close>

type_synonym cmatrix = "complex list list"

definition score :: "real \<Rightarrow> real \<Rightarrow> matrix \<Rightarrow> cmatrix \<Rightarrow> cmatrix \<Rightarrow> matrix" where
  "score a d wmat X1 X2 =
     map2 (\<lambda>wrow xrow.
             map2 (\<lambda>w (x1, x2).
                     (cmod (of_real a * exp (- \<i> * of_real w * of_real d) * x1 - x2))\<^sup>2
                       / (1 + a\<^sup>2))
                  wrow xrow)
          wmat (map2 zip X1 X2)"

definition below :: "real \<Rightarrow> real option \<Rightarrow> bool" where
  "below s b = (case b of None \<Rightarrow> True | Some v \<Rightarrow> s < v)"

definition mask_step ::
  "nat \<Rightarrow> matrix \<Rightarrow> real option list list \<times> nat list list
     \<Rightarrow> real option list list \<times> nat list list" where
  "mask_step i sc st =
     (let bestsofar = fst st;
          bestind = snd st;
          mask = map2 (map2 below) sc bestsofar
      in (map2 (map2 (\<lambda>m (s, b). if m then Some s else b)) mask (map2 zip sc bestsofar),
          map2 (map2 (\<lambda>m k. if m then i else k)) mask bestind))"

text \<open>
  The loop over the sources \<open>0, \<dots>, n - 1\<close> on arrays of \<open>r\<close> by \<open>c\<close>
  bins, \<open>S i\<close> being the score matrix of source \<open>i\<close>.
\<close>

definition mask_fold ::
  "(nat \<Rightarrow> matrix) \<Rightarrow> nat \<Rightarrow> nat \<Rightarrow> nat \<Rightarrow> real option list list \<times> nat list list" where
  "mask_fold S r c n =
     foldl (\<lambda>st i. mask_step i (S i) st)
           (replicate r (replicate c None), replicate r (replicate c 0)) [0..<n]"

definition duet_best ::
  "real list \<Rightarrow> real list \<Rightarrow> matrix \<Rightarrow> cmatrix \<Rightarrow> cmatrix \<Rightarrow> nat \<Rightarrow> nat \<Rightarrow> nat
     \<Rightarrow> real option list list \<times> nat list list" where
  "duet_best atnpeak deltapeak wmat X1 X2 Lf Lt N =
     mask_fold (\<lambda>i. score (atnpeak ! i) (deltapeak ! i) wmat X1 X2) (Lf - 1) Lt N"

definition duet_bestind ::
  "real list \<Rightarrow> real list \<Rightarrow> matrix \<Rightarrow> cmatrix \<Rightarrow> cmatrix \<Rightarrow> nat \<Rightarrow> nat \<Rightarrow> nat
     \<Rightarrow> nat list list" where
  "duet_bestind atnpeak deltapeak wmat X1 X2 Lf Lt N =
     snd (duet_best atnpeak deltapeak wmat X1 X2 Lf Lt N)"

text \<open>
  Lines 183 to 185: the mask of source \<open>i\<close> is \<^verbatim>\<open>bestind == i\<close>, and the
  spectrogram handed to the inverse transform is a row of zeros for the DC
  bin on top of the masked demixed bins.
\<close>

definition duet_mask :: "nat \<Rightarrow> nat list list \<Rightarrow> bool list list" where
  "duet_mask i bestind = map (map (\<lambda>k. k = i)) bestind"

definition demix :: "real \<Rightarrow> real \<Rightarrow> matrix \<Rightarrow> cmatrix \<Rightarrow> cmatrix \<Rightarrow> cmatrix" where
  "demix a d wmat X1 X2 =
     map2 (\<lambda>wrow xrow.
             map2 (\<lambda>w (x1, x2).
                     (x1 + of_real a * exp (\<i> * of_real w * of_real d) * x2) / of_real (1 + a\<^sup>2))
                  wrow xrow)
          wmat (map2 zip X1 X2)"

definition duet_Xm ::
  "nat \<Rightarrow> real list \<Rightarrow> real list \<Rightarrow> matrix \<Rightarrow> cmatrix \<Rightarrow> cmatrix \<Rightarrow> nat \<Rightarrow> nat list list
     \<Rightarrow> cmatrix" where
  "duet_Xm i atnpeak deltapeak wmat X1 X2 Lt bestind =
     replicate Lt 0 #
     map2 (map2 (\<lambda>z m. z * (if m then 1 else 0)))
          (demix (atnpeak ! i) (deltapeak ! i) wmat X1 X2) (duet_mask i bestind)"

section \<open>DUET: the estimator\<close>

text \<open>
  The parameter records of \<^verbatim>\<open>duet\<close>: \<open>sparam\<close> (window length, window
  type, overlap, number of frequency samples, sampling rate), \<open>adparam\<close>
  (ranges and bin counts of attenuation and delay) and \<open>Pr\<close> (threshold,
  the two minimum distances, number of sources).
\<close>

datatype window_type = Rectangular | Hamming | Hanning | Blackman

record sparam =
  winlen :: nat
  wintype :: window_type
  overlap :: nat
  numfreq :: nat
  sampfreq :: int

record adparam =
  amin :: real
  amax :: real
  anum :: nat
  dmin :: real
  dmax :: real
  dnum :: nat

record Pr =
  thr :: real
  a_mindist :: int
  d_mindist :: int
  nsrc :: nat

text \<open>
  \<^verbatim>\<open>f_stft\<close> and \<^verbatim>\<open>f_istft\<close> are imported by DUET.py from modules that are
  not part of the sources at hand; \<^verbatim>\<open>duet\<close> takes them as parameters.
  \<^verbatim>\<open>f_stft\<close> returns the complex spectrogram, the power spectrogram, the
  frequency vector and the time vector; \<^verbatim>\<open>f_istft\<close> returns the signal.
\<close>

type_synonym stft_fun = "real list \<Rightarrow> sparam \<Rightarrow> error + (cmatrix \<times> matrix \<times> real list \<times> real list)"
type_synonym istft_fun = "cmatrix \<Rightarrow> sparam \<Rightarrow> error + real list"

definition bind :: "error + 'a \<Rightarrow> ('a \<Rightarrow> error + 'b) \<Rightarrow> error + 'b" where
  "bind m f = (case m of Inl e \<Rightarrow> Inl e | Inr v \<Rightarrow> f v)"

fun mapM :: "('a \<Rightarrow> error + 'b) \<Rightarrow> 'a list \<Rightarrow> error + 'b list" where
  "mapM f [] = Inr []"
| "mapM f (x # xs) = bind (f x) (\<lambda>y. bind (mapM f xs) (\<lambda>ys. Inr (y # ys)))"

text \<open>\<^verbatim>\<open>x[c, :]\<close>: row \<open>c\<close> of the mixture, an error when there is no such row.\<close>

definition channel :: "matrix \<Rightarrow> nat \<Rightarrow> error + real list" where
  "channel x c = (if c < length x then Inr (x ! c) else Inl InvalidChannelCount)"

text \<open>
  Lines 99 to 117.  The estimates of a bin are kept when they lie strictly
  inside the bounds.  Where a divisor vanishes numpy produces an infinity
  or \<^verbatim>\<open>nan\<close>, which fails every comparison of the bounds test: such a bin
  is dropped.
\<close>

definition EPS :: real where
  "EPS = 1 / 10 ^ 16"

definition R21 :: "complex \<Rightarrow> complex \<Rightarrow> complex" where
  "R21 x1 x2 = (x2 + of_real EPS) / (x1 + of_real EPS)"

definition alpha_of :: "complex \<Rightarrow> complex \<Rightarrow> real" where
  "alpha_of x1 x2 = cmod (R21 x1 x2) - 1 / cmod (R21 x1 x2)"

definition delta_of :: "real \<Rightarrow> complex \<Rightarrow> complex \<Rightarrow> real" where
  "delta_of w x1 x2 = - Arg (R21 x1 x2) / (2 * pi * w)"

definition tfw_of :: "real \<Rightarrow> complex \<Rightarrow> complex \<Rightarrow> real" where
  "tfw_of w x1 x2 = (cmod x1 * cmod x2) ^ 1 * \<bar>w\<bar> ^ 0"

definition in_bounds :: "adparam \<Rightarrow> real \<Rightarrow> complex \<Rightarrow> complex \<Rightarrow> bool" where
  "in_bounds ad w x1 x2 =
     (x1 + of_real EPS \<noteq> 0 \<and> x2 + of_real EPS \<noteq> 0 \<and> w \<noteq> 0
      \<and> amin ad < alpha_of x1 x2 \<and> alpha_of x1 x2 < amax ad
      \<and> dmin ad < delta_of w x1 x2 \<and> delta_of w x1 x2 < dmax ad)"

definition ad_points :: "adparam \<Rightarrow> matrix \<Rightarrow> cmatrix \<Rightarrow> cmatrix \<Rightarrow> (real \<times> complex \<times> complex) list" where
  "ad_points ad wmat X1 X2 =
     filter (\<lambda>(w, x1, x2). in_bounds ad w x1 x2)
            (concat (map2 (\<lambda>wrow xrow. zip wrow xrow) wmat (map2 zip X1 X2)))"

text \<open>
  \<^verbatim>\<open>xhat[i, :] = np.array(xi)[0, 0:Lx]\<close>: the row of the output takes the
  first \<open>Lx\<close> samples of the resynthesis; a single sample is broadcast, and
  any other length that is not \<open>Lx\<close> cannot be assigned.
\<close>

definition assign_row :: "nat \<Rightarrow> real list \<Rightarrow> error + real list" where
  "assign_row Lx xi =
     (let y = take Lx xi
      in if length y = Lx then Inr y
         else if length y = 1 then Inr (replicate Lx (hd y))
         else Inl BroadcastError)"

text \<open>
  \<^verbatim>\<open>duet\<close> with \<^verbatim>\<open>plothist = 'n'\<close>: the figures are not part of the result.
\<close>

definition duet ::
  "stft_fun \<Rightarrow> istft_fun \<Rightarrow> matrix \<Rightarrow> sparam \<Rightarrow> adparam \<Rightarrow> Pr
     \<Rightarrow> error + (matrix \<times> (real \<times> real) list)" where
  "duet f_stft f_istft x sp ad pr =
     bind (channel x 0) (\<lambda>x0.
     bind (f_stft x0 sp) (\<lambda>(X1full, P1, F1, T1).
     bind (channel x 1) (\<lambda>x1.
     bind (f_stft x1 sp) (\<lambda>(X2full, P2, F, T).
       let X1 = drop 1 X1full;
           X2 = drop 1 X2full;
           Lf = length F;
           Lt = length T;
           wmat = map (\<lambda>f. replicate Lt (f * (2 * pi / of_int (sampfreq sp)))) (drop 1 F);
           pts = ad_points ad wmat X1 X2;
           alpha_vec = map (\<lambda>(w, x1, x2). alpha_of x1 x2) pts;
           delta_vec = map (\<lambda>(w, x1, x2). delta_of w x1 x2) pts;
           tfw_vec = map (\<lambda>(w, x1, x2). tfw_of w x1 x2) pts;
           agrid = linspace (amin ad) (amax ad) (anum ad);
           dgrid = linspace (dmin ad) (dmax ad) (dnum ad)
       in
     bind (duet_hist alpha_vec delta_vec tfw_vec (anum ad) (dnum ad)
             (amin ad) (amax ad) (dmin ad) (dmax ad)) (\<lambda>hist.
     bind (find_peaks2 hist (thr pr) (Some (a_mindist pr, d_mindist pr)) (nsrc pr)) (\<lambda>pindex.
       let N = nsrc pr;
           alphapeak = map (\<lambda>(r, c). agrid ! r) pindex;
           deltapeak = map (\<lambda>(r, c). dgrid ! c) pindex;
           ad_est = zip alphapeak deltapeak;
           atnpeak = map (\<lambda>a. (a + sqrt (a\<^sup>2 + 4)) / 2) alphapeak;
           bestind = duet_bestind atnpeak deltapeak wmat X1 X2 Lf Lt N;
           Lx = ncols x
       in
     bind (mapM (\<lambda>i. bind (f_istft (duet_Xm i atnpeak deltapeak wmat X1 X2 Lt bestind) sp)
                         (assign_row Lx)) [0..<N]) (\<lambda>xhat.
     Inr (xhat, ad_est))))))))"

section \<open>Audio buffer arithmetic\<close>

text \<open>
  The buffer of nussl/AudioSignal.py: \<open>audio_data\<close> is laid out as channels
  by samples, \<open>num_channels\<close> is its first dimension and \<^verbatim>\<open>.size\<close> the
  number of its entries.  A buffer built from an array alone takes the
  default sample rate.
\<close>

record audio_signal =
  audio_data :: matrix
  sample_rate :: int

text \<open>
  Modelled from the spec: \<^verbatim>\<open>Constants.DEFAULT_SAMPLE_RATE\<close>; the module
  Constants is not among the sources, the default sample rate is 44100 Hz.
\<close>

definition DEFAULT_SAMPLE_RATE :: int where
  "DEFAULT_SAMPLE_RATE = 44100"

definition AudioSignal :: "matrix \<Rightarrow> audio_signal" where
  "AudioSignal audio_data_array =
     \<lparr>audio_data = audio_data_array, sample_rate = DEFAULT_SAMPLE_RATE\<rparr>"

definition num_channels :: "audio_signal \<Rightarrow> nat" where
  "num_channels s = length (audio_data s)"

definition array_size :: "matrix \<Rightarrow> nat" where
  "array_size A = length (concat A)"

text \<open>
  \<^verbatim>\<open>combined[0:n] += B\<close> and \<^verbatim>\<open>combined[0:n] -= B\<close>.  The slice selects
  the first \<open>n\<close> rows of \<open>combined\<close> (all of them when there are fewer),
  and numpy broadcasts \<open>B\<close> to the shape of that slice: each dimension of
  \<open>B\<close> has to agree with the slice or to be 1, and raises otherwise.
\<close>

definition broadcast_get :: "matrix \<Rightarrow> nat \<Rightarrow> nat \<Rightarrow> real" where
  "broadcast_get B i j =
     (B ! (if length B = 1 then 0 else i)) ! (if ncols B = 1 then 0 else j)"

definition inplace :: "(real \<Rightarrow> real \<Rightarrow> real) \<Rightarrow> matrix \<Rightarrow> nat \<Rightarrow> matrix \<Rightarrow> error + matrix" where
  "inplace f combined n B =
     (let r = slice_bound (length combined) (int n)
      in if (length B = r \<or> length B = 1) \<and> (ncols B = ncols combined \<or> ncols B = 1)
         then Inr (map (\<lambda>i. map (\<lambda>j. f (combined ! i ! j) (broadcast_get B i j))
                              [0..<ncols combined]) [0..<r]
                   @ drop r combined)
         else Inl BroadcastError)"

definition audio_add :: "audio_signal \<Rightarrow> audio_signal \<Rightarrow> error + audio_signal" where
  "audio_add self other =
     (if num_channels self \<noteq> num_channels other then Inl ChannelMismatch
      else if sample_rate self \<noteq> sample_rate other then Inl RateMismatch
      else if array_size (audio_data self) > array_size (audio_data other)
      then bind (inplace (+) (audio_data self) (array_size (audio_data other)) (audio_data other))
                (\<lambda>combined. Inr (AudioSignal combined))
      else bind (inplace (+) (audio_data other) (array_size (audio_data self)) (audio_data self))
                (\<lambda>combined. Inr (AudioSignal combined)))"

definition audio_sub :: "audio_signal \<Rightarrow> audio_signal \<Rightarrow> error + audio_signal" where
  "audio_sub self other =
     (if num_channels self \<noteq> num_channels other then Inl ChannelMismatch
      else if sample_rate self \<noteq> sample_rate other then Inl RateMismatch
      else if array_size (audio_data self) > array_size (audio_data other)
      then bind (inplace (-) (audio_data self) (array_size (audio_data other)) (audio_data other))
                (\<lambda>combined. Inr (AudioSignal combined))
      else bind (inplace (-) (audio_data other) (array_size (audio_data self)) (audio_data self))
                (\<lambda>combined. Inr (AudioSignal combined)))"

text \<open>
  The buffer of the older AudioSignal.py: \<open>AudioData\<close> is laid out as
  samples by channels, \<open>nChannels\<close> is a field of its own, and the
  arithmetic compares the channel counts only.
\<close>

record audio_signal_old =
  AudioData :: matrix
  nChannels :: nat
  SampleRate :: int

definition AudioSignal_old :: "matrix \<Rightarrow> audio_signal_old" where
  "AudioSignal_old timeSeries =
     \<lparr>AudioData = timeSeries, nChannels = ncols timeSeries, SampleRate = DEFAULT_SAMPLE_RATE\<rparr>"

definition audio_add_old :: "audio_signal_old \<Rightarrow> audio_signal_old \<Rightarrow> error + audio_signal_old" where
  "audio_add_old self other =
     (if nChannels self \<noteq> nChannels other then Inl ChannelMismatch
      else if array_size (AudioData self) > array_size (AudioData other)
      then bind (inplace (+) (AudioData self) (array_size (AudioData other)) (AudioData other))
                (\<lambda>combined. Inr (AudioSignal_old combined))
      else bind (inplace (+) (AudioData other) (array_size (AudioData self)) (AudioData self))
                (\<lambda>combined. Inr (AudioSignal_old combined)))"

definition audio_sub_old :: "audio_signal_old \<Rightarrow> audio_signal_old \<Rightarrow> error + audio_signal_old" where
  "audio_sub_old self other =
     (if nChannels self \<noteq> nChannels other then Inl ChannelMismatch
      else if array_size (AudioData self) > array_size (AudioData other)
      then bind (inplace (-) (AudioData self) (array_size (AudioData other)) (AudioData other))
                (\<lambda>combined. Inr (AudioSignal_old combined))
      else bind (inplace (-) (AudioData other) (array_size (AudioData self)) (AudioData self))
                (\<lambda>combined. Inr (AudioSignal_old combined)))"

section \<open>REPET-SIM: the similarity matrix\<close>

text \<open>
  \<^verbatim>\<open>sim_mat\<close> of REPET_sim.py, which is \<^verbatim>\<open>Repet.ComputeSimilarityMatrix\<close>
  of Repet.py.  Arrays live in a store of buffers; an array value is a view:
  the address of its buffer and whether it reads the buffer transposed.
  \<^verbatim>\<open>X = X.T\<close> rebinds the local name to the transposed view of the
  caller's buffer, and \<^verbatim>\<open>X[i, :] = ...\<close> writes through that view.
\<close>

type_synonym store = "nat \<rightharpoonup> matrix"

record ndarray =
  base :: nat
  transposed :: bool

definition T :: "ndarray \<Rightarrow> ndarray" where
  "T X = X\<lparr>transposed := \<not> transposed X\<rparr>"

definition column :: "matrix \<Rightarrow> nat \<Rightarrow> real list" where
  "column M i = map (\<lambda>row. row ! i) M"

definition set_column :: "matrix \<Rightarrow> nat \<Rightarrow> real list \<Rightarrow> matrix" where
  "set_column M i v = map2 (\<lambda>row x. row[i := x]) M v"

definition buffer :: "store \<Rightarrow> ndarray \<Rightarrow> matrix" where
  "buffer s X = (case s (base X) of None \<Rightarrow> [] | Some M \<Rightarrow> M)"

definition get_row :: "store \<Rightarrow> ndarray \<Rightarrow> nat \<Rightarrow> real list" where
  "get_row s X i = (if transposed X then column (buffer s X) i else buffer s X ! i)"

definition set_row :: "store \<Rightarrow> ndarray \<Rightarrow> nat \<Rightarrow> real list \<Rightarrow> store" where
  "set_row s X i v =
     s(base X \<mapsto> (if transposed X then set_column (buffer s X) i v
                    else (buffer s X)[i := v]))"

definition shape :: "store \<Rightarrow> ndarray \<Rightarrow> nat \<times> nat" where
  "shape s X =
     (if transposed X then (ncols (buffer s X), length (buffer s X))
      else (length (buffer s X), ncols (buffer s X)))"

definition to_matrix :: "store \<Rightarrow> ndarray \<Rightarrow> matrix" where
  "to_matrix s X = map (get_row s X) [0..<fst (shape s X)]"

definition dot :: "real list \<Rightarrow> real list \<Rightarrow> real" where
  "dot u v = sum_list (map2 (*) u v)"

definition sim_mat_step :: "ndarray \<Rightarrow> store \<Rightarrow> nat \<Rightarrow> store" where
  "sim_mat_step X s i =
     (let Xi = get_row s X i;
          rowNorm = sqrt (dot Xi Xi)
      in set_row s X i (map (\<lambda>x. x / (rowNorm + EPS)) Xi))"

definition sim_mat :: "ndarray \<Rightarrow> store \<Rightarrow> matrix \<times> store" where
  "sim_mat X0 s0 =
     (let Lt = snd (shape s0 X0);
          X = T X0;
          s = foldl (sim_mat_step X) s0 [0..<Lt];
          S = map (\<lambda>u. map (\<lambda>v. dot u v) (to_matrix s X)) (to_matrix s X)
      in (S, s))"

text \<open>
  The L2 norm of column \<open>j\<close> of a buffer, and the buffer with its first
  \<open>n\<close> columns divided by their norm plus \<open>EPS\<close>: the columns the loop
  of \<^verbatim>\<open>sim_mat\<close> has gone through after \<open>n\<close> rounds.
\<close>

definition col_norm :: "matrix \<Rightarrow> nat \<Rightarrow> real" where
  "col_norm M j = sqrt (dot (column M j) (column M j))"

definition scaled_columns :: "matrix \<Rightarrow> nat \<Rightarrow> matrix" where
  "scaled_columns M n =
     map (\<lambda>row. map (\<lambda>j. if j < n then row ! j / (col_norm M j + EPS) else row ! j)
                     [0..<length row]) M"


section \<open>Properties of the one-dimensional peak finder\<close>

lemma nonzero_size_threshold:
  "nonzero_size [threshold \<theta> v] = 2 * candidate_count \<theta> v"
  by (induction v) (simp_all add: nonzero_size_def threshold_def candidate_count_def)

lemma length_find_peaks_loop:
  "length (find_peaks_loop data d K i Pi) = length Pi"
proof (induction data d K i Pi rule: find_peaks_loop.induct)
  case (1 data min_dist max_num i Pi)
  show ?case
    by (subst find_peaks_loop.simps) (simp add: Let_def "1.IH")
qed

text \<open>
  C3, as the code has it.  The finder either fails or succeeds.  When it
  fails, the error is \<open>InsufficientPeaks\<close> and fewer than \<open>K\<close> nonzero
  entries of \<open>v\<close> reach the threshold.  When it succeeds, the returned
  indices are sorted ascending, there are \<open>K\<close> of them, and either \<open>K\<close> is
  zero or some nonzero entry of \<open>v\<close> reaches the threshold.  An entry equal
  to zero is never a candidate, whatever the threshold.
\<close>

theorem find_peaks_outcome:
  "(case find_peaks v \<theta> d K of
      Inl e \<Rightarrow> e = InsufficientPeaks \<and> candidate_count \<theta> v < K
    | Inr Pi \<Rightarrow> sorted Pi \<and> length Pi = K \<and> (K = 0 \<or> 0 < candidate_count \<theta> v))"
  by (auto simp add: find_peaks_def Let_def nonzero_size_threshold length_find_peaks_loop)

text \<open>
  C3 as stated fails: with threshold 0 both entries of the vector \<open>[0, 0]\<close>
  reach the threshold, so one peak could be asked for, and the finder
  fails all the same.
\<close>

theorem find_peaks_threshold_counterexample:
  "\<not> ((find_peaks [0, 0] 0 (Some 0) 1 = Inl InsufficientPeaks) \<longleftrightarrow> (reach_count 0 [0, 0] < 1))"
  by code_simp

section \<open>Shapes and entries of arrays\<close>

lemma is_matrix_nth: "is_matrix M r c \<Longrightarrow> k < r \<Longrightarrow> length (M ! k) = c"
  by (simp add: is_matrix_def list_all_length)

lemma is_matrix_length: "is_matrix M r c \<Longrightarrow> length M = r"
  by (simp add: is_matrix_def)

lemma is_matrixI: "length M = r \<Longrightarrow> (\<And>k. k < r \<Longrightarrow> length (M ! k) = c) \<Longrightarrow> is_matrix M r c"
  by (simp add: is_matrix_def list_all_length)

lemma is_matrix_ncols: "is_matrix M r c \<Longrightarrow> 0 < r \<Longrightarrow> ncols M = c"
  by (cases M) (simp_all add: is_matrix_def ncols_def)

lemma is_matrix_entry: "is_matrix M r c \<Longrightarrow> i < r \<Longrightarrow> j < c \<Longrightarrow> M ! i ! j \<in> set (concat M)"
proof -
  assume a: "is_matrix M r c" "i < r" "j < c"
  then have "M ! i \<in> set M" by (simp add: is_matrix_length)
  moreover have "M ! i ! j \<in> set (M ! i)" using a by (simp add: is_matrix_nth)
  ultimately show ?thesis by auto
qed

lemma is_matrix_replicate: "is_matrix (replicate r (replicate c x)) r c"
  by (simp add: is_matrix_def list_all_length)

lemma is_matrix_map2:
  assumes "is_matrix A r c" "is_matrix B r c"
  shows "is_matrix (map2 (map2 f) A B) r c"
  using assms by (auto intro!: is_matrixI simp add: is_matrix_length is_matrix_nth)

lemma is_matrix_map2_zip:
  assumes "is_matrix A r c" "is_matrix B r c"
  shows "is_matrix (map2 zip A B) r c"
  using assms by (auto intro!: is_matrixI simp add: is_matrix_length is_matrix_nth)

lemma nth_map2_map2:
  assumes "is_matrix A r c" "is_matrix B r c" "k < r" "t < c"
  shows "map2 (map2 f) A B ! k ! t = f (A ! k ! t) (B ! k ! t)"
  using assms by (simp add: is_matrix_length is_matrix_nth)

lemma nth_map2_zip:
  assumes "is_matrix A r c" "is_matrix B r c" "k < r" "t < c"
  shows "map2 zip A B ! k ! t = (A ! k ! t, B ! k ! t)"
  using assms by (simp add: is_matrix_length is_matrix_nth)

lemma concat_entry:
  assumes "x \<in> set (concat M)" "is_matrix M r c"
  shows "\<exists>i<r. \<exists>j<c. M ! i ! j = x"
proof -
  from assms(1) obtain row where row: "row \<in> set M" "x \<in> set row" by auto
  then obtain i where i: "i < length M" "M ! i = row" by (auto simp add: in_set_conv_nth)
  from row(2) obtain j where j: "j < length row" "row ! j = x" by (auto simp add: in_set_conv_nth)
  have "i < r" using i(1) assms(2) by (simp add: is_matrix_length)
  moreover have "j < c" using j(1) i assms(2) \<open>i < r\<close> by (auto simp add: is_matrix_nth)
  ultimately show ?thesis using i(2) j(2) by auto
qed

lemma nonneg_nth: "nonneg M \<Longrightarrow> i < length M \<Longrightarrow> j < length (M ! i) \<Longrightarrow> 0 \<le> M ! i ! j"
  by (simp add: nonneg_def list_all_length)

lemma nonnegI: "(\<And>i j. i < length M \<Longrightarrow> j < length (M ! i) \<Longrightarrow> 0 \<le> M ! i ! j) \<Longrightarrow> nonneg M"
  by (simp add: nonneg_def list_all_length)

section \<open>Properties of the two-dimensional peak finder\<close>

text \<open>
  C4 at a failing input.  The data are 3 by 3 with the values 1 at \<open>(0, 0)\<close>
  and 0.9 at \<open>(2, 2)\<close>, the threshold is 0.5, the minimum distances are
  \<open>(1, 1)\<close> and two peaks are asked for.  The first pick is \<open>(0, 0)\<close>.  The
  slice that is to suppress its neighbourhood starts at row and column
  \<open>0 - 1 - 1 = -2\<close>, which Python counts from the end: it is \<open>[1:2]\<close> on
  both axes, so the pick itself stays in the data and is picked again.  The
  two returned indices are equal, at distance 0.
\<close>

theorem find_peaks2_repeats_border_peak:
  "find_peaks2 [[1, 0, 0], [0, 0, 0], [0, 0, 9 / 10]] (1 / 2) (Some (1, 1)) 2
     = Inr [(0, 0), (0, 0)]"
  by code_simp

section \<open>Properties of the smoothing kernel\<close>

lemma kernel_matrix_3:
  "kernel_matrix (KSize 3) = [[1/9, 1/9, 1/9], [1/9, 1/9, 1/9], [1/9, 1/9, 1/9]]"
  by code_simp

lemma upt_3: "[0..<3] = [0, 1, 2]"
  by code_simp

lemma twoDsmooth_3:
  "twoDsmooth M (KSize 3) =
     (case augMat M 1 1 of Inl e \<Rightarrow> Inl e
      | Inr aug \<Rightarrow> Inr (convolve2d_valid aug [[1/9, 1/9, 1/9], [1/9, 1/9, 1/9], [1/9, 1/9, 1/9]]))"
proof -
  have "flip2 [[1/9, 1/9, 1/9], [1/9, 1/9, 1/9], [1/9, 1/9, (1/9 :: real)]]
          = [[1/9, 1/9, 1/9], [1/9, 1/9, 1/9], [1/9, 1/9, 1/9]]"
    by (simp add: flip2_def)
  then show ?thesis
    by (simp add: twoDsmooth_def kernel_matrix_3 Let_def ncols_def cong: sum.case_cong)
qed

lemma augMat_1:
  assumes "is_matrix M r c" "0 < r" "2 \<le> c"
  shows "augMat M 1 1 = Inr ([[hd M ! 0] @ hd M @ [last (hd M)]] @ map (\<lambda>row. [row ! 0] @ row @ [last row]) M
                             @ [[last M ! 1] @ last M @ [last (last M)]])"
proof -
  have "M \<noteq> []" using assms by (auto simp add: is_matrix_def)
  moreover have "ncols M = c" using assms by (simp add: is_matrix_ncols)
  ultimately show ?thesis
    using assms(3) by (simp add: augMat_def Let_def)
qed

lemma list_all_pad:
  assumes "list_all P row" "row \<noteq> []" "i < length row"
  shows "list_all P ([row ! i] @ row @ [last row])"
  using assms by (simp add: list_all_iff)

lemma smooth3_entries:
  assumes M: "is_matrix M r c" and r: "0 < r" and c: "2 \<le> c"
    and P: "list_all (list_all P) M"
  shows "\<exists>S aug. twoDsmooth M (KSize 3) = Inr S \<and> is_matrix S r c
           \<and> (\<forall>i<r + 2. \<forall>j<c + 2. P (aug ! i ! j))
           \<and> (\<forall>i<r. \<forall>j<c. aug ! (i + 1) ! (j + 1) = M ! i ! j)
           \<and> (\<forall>i<r. \<forall>j<c. S ! i ! j =
                 (aug ! (i + 2) ! (j + 2) + aug ! (i + 2) ! (j + 1) + aug ! (i + 2) ! j
                  + aug ! (i + 1) ! (j + 2) + aug ! (i + 1) ! (j + 1) + aug ! (i + 1) ! j
                  + aug ! i ! (j + 2) + aug ! i ! (j + 1) + aug ! i ! j) / 9)"
proof -
  define aug where "aug = [[hd M ! 0] @ hd M @ [last (hd M)]] @ map (\<lambda>row. [row ! 0] @ row @ [last row]) M
                             @ [[last M ! 1] @ last M @ [last (last M)]]"
  define K where "K = [[1/9, 1/9, 1/9], [1/9, 1/9, 1/9], [1/9, 1/9, (1/9 :: real)]]"
  define S where "S = convolve2d_valid aug K"
  have ne: "M \<noteq> []" and len: "length M = r" using M r by (auto simp add: is_matrix_def)
  have rows: "length row = c" "list_all P row" if "row \<in> set M" for row
    using that M P by (simp_all add: is_matrix_def list_all_iff)
  have hdM: "hd M \<in> set M" and lastM: "last M \<in> set M" using ne by simp_all
  have tw: "twoDsmooth M (KSize 3) = Inr S"
    unfolding twoDsmooth_3 augMat_1 [OF M r c] by (simp add: S_def aug_def K_def)
  have auglen: "length aug = r + 2" by (simp add: aug_def len)
  have augrows: "length row = c + 2 \<and> list_all P row" if "row \<in> set aug" for row
  proof -
    from that consider "row = [hd M ! 0] @ hd M @ [last (hd M)]"
      | m where "m \<in> set M" "row = [m ! 0] @ m @ [last m]"
      | "row = [last M ! 1] @ last M @ [last (last M)]"
      by (auto simp add: aug_def)
    then show ?thesis
    proof cases
      case 1
      have "hd M \<noteq> []" "0 < length (hd M)" using rows(1) [OF hdM] c by auto
      then show ?thesis
        using list_all_pad [OF rows(2) [OF hdM], of 0] rows(1) [OF hdM] 1 by simp
    next
      case 2
      have "m \<noteq> []" "0 < length m" using rows(1) [OF 2(1)] c by auto
      then show ?thesis
        using list_all_pad [OF rows(2) [OF 2(1)], of 0] rows(1) [OF 2(1)] 2(2)
        by simp
    next
      case 3
      have "last M \<noteq> []" "1 < length (last M)" using rows(1) [OF lastM] c by auto
      then show ?thesis
        using list_all_pad [OF rows(2) [OF lastM], of 1] rows(1) [OF lastM] 3 by simp
    qed
  qed
  have augP: "P (aug ! i ! j)" if "i < r + 2" "j < c + 2" for i j
  proof -
    have "aug ! i \<in> set aug" using that(1) auglen by simp
    then have "length (aug ! i) = c + 2" "list_all P (aug ! i)"
      using augrows by simp_all
    then show ?thesis using that(2) by (simp add: list_all_length)
  qed
  have augmid: "aug ! Suc i ! Suc j = M ! i ! j" if "i < r" "j < c" for i j
  proof -
    have "aug ! Suc i = [M ! i ! 0] @ M ! i @ [last (M ! i)]"
      using that(1) len by (simp add: aug_def nth_append)
    moreover have "length (M ! i) = c" using M that(1) by (rule is_matrix_nth)
    ultimately show ?thesis using that(2) by (simp add: nth_append)
  qed
  have ncols_aug: "ncols aug = c + 2"
    using rows [OF hdM] by (simp add: aug_def ncols_def)
  have Kdims: "length K = 3" "ncols K = 3" by (simp_all add: K_def ncols_def)
  have Sij: "S ! i ! j = (\<Sum>a\<leftarrow>[0..<3]. \<Sum>b\<leftarrow>[0..<3]. K ! a ! b * aug ! (i + 3 - 1 - a) ! (j + 3 - 1 - b))"
    if "i < r" "j < c" for i j
    unfolding S_def convolve2d_valid_def Let_def Kdims auglen ncols_aug using that by simp
  have Sval: "S ! i ! j = (aug ! (i + 2) ! (j + 2) + aug ! (i + 2) ! (j + 1) + aug ! (i + 2) ! j
                     + aug ! (i + 1) ! (j + 2) + aug ! (i + 1) ! (j + 1) + aug ! (i + 1) ! j
                     + aug ! i ! (j + 2) + aug ! i ! (j + 1) + aug ! i ! j) / 9"
    if "i < r" "j < c" for i j
    unfolding Sij [OF that] upt_3 K_def by (simp add: numeral_2_eq_2)
  have shape: "is_matrix S r c"
    unfolding S_def convolve2d_valid_def Let_def Kdims auglen ncols_aug
    by (simp add: is_matrix_def list_all_length)
  have mid: "aug ! (i + 1) ! (j + 1) = M ! i ! j" if "i < r" "j < c" for i j
    using augmid [OF that] by simp
  show ?thesis
    using tw shape augP mid Sval by blast
qed

lemma smooth3:
  assumes M: "is_matrix M r c" and r: "0 < r" and c: "2 \<le> c" and nn: "nonneg M"
  shows "\<exists>S. twoDsmooth M (KSize 3) = Inr S \<and> is_matrix S r c \<and> nonneg S
             \<and> (\<forall>i<r. \<forall>j<c. M ! i ! j / 9 \<le> S ! i ! j)"
proof -
  from smooth3_entries [OF M r c nn [unfolded nonneg_def]]
  obtain S aug where tw: "twoDsmooth M (KSize 3) = Inr S" and shape: "is_matrix S r c"
    and augnn: "\<And>i j. i < r + 2 \<Longrightarrow> j < c + 2 \<Longrightarrow> 0 \<le> aug ! i ! j"
    and mid: "\<And>i j. i < r \<Longrightarrow> j < c \<Longrightarrow> aug ! (i + 1) ! (j + 1) = M ! i ! j"
    and Sval: "\<And>i j. i < r \<Longrightarrow> j < c \<Longrightarrow> S ! i ! j =
                 (aug ! (i + 2) ! (j + 2) + aug ! (i + 2) ! (j + 1) + aug ! (i + 2) ! j
                  + aug ! (i + 1) ! (j + 2) + aug ! (i + 1) ! (j + 1) + aug ! (i + 1) ! j
                  + aug ! i ! (j + 2) + aug ! i ! (j + 1) + aug ! i ! j) / 9"
    by blast
  have lower: "M ! i ! j / 9 \<le> S ! i ! j" "0 \<le> S ! i ! j" if "i < r" "j < c" for i j
  proof -
    have "0 \<le> aug ! (i + 2) ! (j + 2)" "0 \<le> aug ! (i + 2) ! (j + 1)" "0 \<le> aug ! (i + 2) ! j"
      "0 \<le> aug ! (i + 1) ! (j + 2)" "0 \<le> aug ! (i + 1) ! (j + 1)" "0 \<le> aug ! (i + 1) ! j"
      "0 \<le> aug ! i ! (j + 2)" "0 \<le> aug ! i ! (j + 1)" "0 \<le> aug ! i ! j"
      using that by (simp_all add: augnn)
    moreover have "aug ! (i + 1) ! (j + 1) = M ! i ! j" using mid [OF that] .
    ultimately show "M ! i ! j / 9 \<le> S ! i ! j" "0 \<le> S ! i ! j"
      unfolding Sval [OF that] by simp_all
  qed
  have "nonneg S"
  proof (rule nonnegI)
    fix i j assume "i < length S" "j < length (S ! i)"
    then have "i < r" "j < c" using shape by (simp_all add: is_matrix_length is_matrix_nth)
    then show "0 \<le> S ! i ! j" by (rule lower(2))
  qed
  with tw shape lower(1) show ?thesis by blast
qed

text \<open>
  What holds of the smoothing by the 3-by-3 average on every matrix of at
  least one row and two columns: the result has the shape of the input, and
  a constant matrix is returned as it is.
\<close>

lemma twoDsmooth_3_shape:
  assumes "is_matrix M r c" "0 < r" "2 \<le> c"
  shows "\<exists>S. twoDsmooth M (KSize 3) = Inr S \<and> is_matrix S r c"
proof -
  have "list_all (list_all (\<lambda>x. True)) M" by (simp add: list_all_iff)
  from smooth3_entries [OF assms this] show ?thesis by blast
qed

lemma twoDsmooth_3_constant:
  assumes r: "0 < r" and c: "2 \<le> c"
  shows "twoDsmooth (replicate r (replicate c v)) (KSize 3) = Inr (replicate r (replicate c v))"
proof -
  have M: "is_matrix (replicate r (replicate c v)) r c" by (rule is_matrix_replicate)
  have P: "list_all (list_all (\<lambda>x. x = v)) (replicate r (replicate c v))"
    by (simp add: list_all_iff)
  from smooth3_entries [OF M r c P]
  obtain S aug where tw: "twoDsmooth (replicate r (replicate c v)) (KSize 3) = Inr S"
    and shape: "is_matrix S r c"
    and augv: "\<And>i j. i < r + 2 \<Longrightarrow> j < c + 2 \<Longrightarrow> aug ! i ! j = v"
    and Sval: "\<And>i j. i < r \<Longrightarrow> j < c \<Longrightarrow> S ! i ! j =
                 (aug ! (i + 2) ! (j + 2) + aug ! (i + 2) ! (j + 1) + aug ! (i + 2) ! j
                  + aug ! (i + 1) ! (j + 2) + aug ! (i + 1) ! (j + 1) + aug ! (i + 1) ! j
                  + aug ! i ! (j + 2) + aug ! i ! (j + 1) + aug ! i ! j) / 9"
    by blast
  have "S ! i ! j = v" if "i < r" "j < c" for i j
    unfolding Sval [OF that] using that by (simp add: augv)
  then have "S = replicate r (replicate c v)"
    using shape
    by (intro nth_equalityI) (simp_all add: is_matrix_length is_matrix_nth)
  then show ?thesis using tw by simp
qed

text \<open>
  C6 at a failing input.  The matrix is \<open>[[1, 2], [3, 4]]\<close> and the kernel
  the 3-by-3 average, so one row and one column are added on each side.
  The nearest entry to the bottom-left corner of the border is
  \<open>Mat[-1, 0] = 3\<close>; the augmented matrix holds \<open>Mat[-1, 1] = 4\<close> there,
  and the smoothed value below it is 25/9 where replicated edges give 24/9.
\<close>

theorem twoDsmooth_corner_padding:
  "augMat [[1, 2], [3, 4]] 1 1 = Inr [[1, 1, 2, 2], [1, 1, 2, 2], [3, 3, 4, 4], [4, 3, 4, 4]]
   \<and> twoDsmooth [[1, 2], [3, 4]] (KSize 3) = Inr [[2, 7 / 3], [25 / 9, 3]]"
  by code_simp

text \<open>
  C7 at a failing input.  The matrix of the single entry 5 is constant; the
  read of \<^verbatim>\<open>Mat[-1, 1]\<close> for the bottom-left corner is out of bounds on a
  matrix of one column, and no smoothed matrix is returned.
\<close>

theorem twoDsmooth_single_column_fails:
  "twoDsmooth [[5]] (KSize 3) = Inl IndexError"
  by code_simp

section \<open>Properties of the histogram normalisation\<close>

lemma mat_max_ge: "x \<in> set (concat M) \<Longrightarrow> x \<le> mat_max M"
  by (simp add: mat_max_def)

lemma concat_map_map: "concat (map (map f) M) = map f (concat M)"
  by (simp add: map_concat)

lemma normalize_max:
  assumes "0 < mat_max M" "concat M \<noteq> []"
  shows "normalize M = Inr (map (map (\<lambda>x. x / mat_max M)) M)"
    and "mat_max (map (map (\<lambda>x. x / mat_max M)) M) = 1"
proof -
  show "normalize M = Inr (map (map (\<lambda>x. x / mat_max M)) M)"
    using assms by (simp add: normalize_def)
  have fin: "finite (set (concat M))" and ne: "set (concat M) \<noteq> {}"
    using assms(2) by simp_all
  have "mat_max M \<in> set (concat M)"
    unfolding mat_max_def using fin ne by (rule Max_in)
  then have one: "1 \<in> (\<lambda>x. x / mat_max M) ` set (concat M)"
    using assms(1) by (metis (mono_tags, lifting) divide_self_if image_iff less_numeral_extra(3))
  have le: "y \<le> 1" if "y \<in> (\<lambda>x. x / mat_max M) ` set (concat M)" for y
  proof -
    from that obtain x where x: "x \<in> set (concat M)" "y = x / mat_max M" by auto
    then have "x \<le> mat_max M" by (simp add: mat_max_ge)
    then show ?thesis using x(2) assms(1) by (simp add: divide_le_eq)
  qed
  have "Max ((\<lambda>x. x / mat_max M) ` set (concat M)) = 1"
    by (rule Max_eqI) (use fin le one in auto)
  then show "mat_max (map (map (\<lambda>x. x / mat_max M)) M) = 1"
    by (simp add: mat_max_def [of "map (map (\<lambda>x. x / mat_max M)) M"] concat_map_map)
qed

lemma is_matrix_histogram2d:
  "is_matrix (histogram2d xs ys nx ny xlo xhi ylo yhi ws) nx ny"
  by (simp add: histogram2d_def is_matrix_def list_all_length)

lemma sum_list_if_nonneg:
  assumes "list_all (\<lambda>w. 0 \<le> w) ws"
  shows "0 \<le> sum_list (map (\<lambda>(x, y, w). if P x y then w else (0::real)) (zip xs (zip ys ws)))"
proof (rule sum_list_nonneg)
  fix v assume "v \<in> set (map (\<lambda>(x, y, w). if P x y then w else 0) (zip xs (zip ys ws)))"
  then obtain x y w where "(x, y, w) \<in> set (zip xs (zip ys ws))" "v = (if P x y then w else 0)"
    by auto
  moreover then have "w \<in> set ws" by (meson set_zip_rightD)
  ultimately show "0 \<le> v" using assms by (auto simp add: list_all_iff)
qed

lemma histogram2d_nonneg:
  assumes "list_all (\<lambda>w. 0 \<le> w) ws" "i < nx" "j < ny"
  shows "0 \<le> histogram2d xs ys nx ny xlo xhi ylo yhi ws ! i ! j"
proof -
  have "histogram2d xs ys nx ny xlo xhi ylo yhi ws ! i ! j
          = sum_list (map (\<lambda>(x, y, w).
                        if bin_of xlo xhi nx x = Some i \<and> bin_of ylo yhi ny y = Some j
                        then w else 0)
                      (zip xs (zip ys ws)))"
    using assms(2,3) by (simp add: histogram2d_def)
  then show ?thesis
    using sum_list_if_nonneg [OF assms(1), of "\<lambda>x y. bin_of xlo xhi nx x = Some i \<and> bin_of ylo yhi ny y = Some j" xs ys]
    by simp
qed

lemma positive_entry_max:
  assumes "x \<in> set (concat M)" "0 < x"
  shows "0 < mat_max M" "concat M \<noteq> []"
proof -
  have "x \<le> mat_max M" using assms(1) by (rule mat_max_ge)
  then show "0 < mat_max M" using assms(2) by simp
  show "concat M \<noteq> []" using assms(1) by (metis empty_iff empty_set)
qed

text \<open>
  C5, as the code has it.  When the weights are nonnegative (they are
  products of magnitudes), the histogram has a positive entry and there are
  at least two delay bins, both normalisations succeed and each leaves the
  maximum of the histogram at 1: once before the smoothing (\<open>duet_hist0\<close>)
  and once after it (\<open>duet_hist\<close>).
\<close>

theorem duet_hist_normalized:
  assumes w: "list_all (\<lambda>w. 0 \<le> w) tfw_vec"
    and d: "2 \<le> d_num"
    and pos: "\<exists>x\<in>set (concat (histogram2d alpha_vec delta_vec a_num d_num
                                  a_min a_max d_min d_max tfw_vec)). 0 < x"
  shows "\<exists>hist0 hist.
           duet_hist0 alpha_vec delta_vec tfw_vec a_num d_num a_min a_max d_min d_max = Inr hist0
         \<and> mat_max hist0 = 1
         \<and> duet_hist alpha_vec delta_vec tfw_vec a_num d_num a_min a_max d_min d_max = Inr hist
         \<and> mat_max hist = 1"
proof -
  define H where "H = histogram2d alpha_vec delta_vec a_num d_num a_min a_max d_min d_max tfw_vec"
  define H0 where "H0 = map (map (\<lambda>x. x / mat_max H)) H"
  have shH: "is_matrix H a_num d_num" unfolding H_def by (rule is_matrix_histogram2d)
  from pos obtain x where x: "x \<in> set (concat H)" "0 < x" unfolding H_def by auto
  have mpos: "0 < mat_max H" and ne: "concat H \<noteq> []"
    using positive_entry_max [OF x] by simp_all
  have a: "0 < a_num" using ne shH by (auto simp add: is_matrix_def)
  have n0: "normalize H = Inr H0" and m0: "mat_max H0 = 1"
    using normalize_max [OF mpos ne] by (simp_all add: H0_def)
  have shH0: "is_matrix H0 a_num d_num"
    using shH by (simp add: H0_def is_matrix_def list_all_length)
  have nnH0: "nonneg H0"
  proof (rule nonnegI)
    fix i j assume "i < length H0" "j < length (H0 ! i)"
    then have ij: "i < a_num" "j < d_num"
      using shH0 by (simp_all add: is_matrix_length is_matrix_nth)
    then have "0 \<le> H ! i ! j" unfolding H_def by (rule histogram2d_nonneg [OF w])
    moreover have "H0 ! i ! j = H ! i ! j / mat_max H"
      using ij shH by (simp add: H0_def is_matrix_length is_matrix_nth)
    ultimately show "0 \<le> H0 ! i ! j" using mpos by simp
  qed
  from smooth3 [OF shH0 a d nnH0] obtain S where S: "twoDsmooth H0 (KSize 3) = Inr S"
    "is_matrix S a_num d_num" "\<forall>i<a_num. \<forall>j<d_num. H0 ! i ! j / 9 \<le> S ! i ! j" by blast
  have "concat H0 \<noteq> []" using ne by (simp add: H0_def concat_map_map)
  then have "mat_max H0 \<in> set (concat H0)" unfolding mat_max_def by (intro Max_in) simp_all
  then have "1 \<in> set (concat H0)" using m0 by simp
  then obtain i j where ij: "i < a_num" "j < d_num" "H0 ! i ! j = 1"
    using concat_entry [OF _ shH0] by blast
  then have "1 / 9 \<le> S ! i ! j" using S(3) by fastforce
  then have Spos: "0 < S ! i ! j" by simp
  have Sin: "S ! i ! j \<in> set (concat S)" using S(2) ij(1,2) by (rule is_matrix_entry)
  have "0 < mat_max S" "concat S \<noteq> []"
    using positive_entry_max [OF Sin Spos] by simp_all
  then have "normalize S = Inr (map (map (\<lambda>x. x / mat_max S)) S)"
    "mat_max (map (map (\<lambda>x. x / mat_max S)) S) = 1"
    using normalize_max [of S] by simp_all
  moreover have "duet_hist0 alpha_vec delta_vec tfw_vec a_num d_num a_min a_max d_min d_max = Inr H0"
    using n0 by (simp add: duet_hist0_def H_def)
  ultimately show ?thesis
    using m0 S(1) by (simp add: duet_hist_def)
qed

theorem duet_hist_normalized_witness:
  "list_all (\<lambda>w. 0 \<le> w) [2, 1 :: real] \<and> (2 :: nat) \<le> 2
   \<and> (\<exists>x\<in>set (concat (histogram2d [0, 1 / 2] [0, - 1 / 2] 2 2 (- 1) 1 (- 1) 1 [2, 1])). 0 < x)
   \<and> (\<exists>hist0 hist.
           duet_hist0 [0, 1 / 2] [0, - 1 / 2] [2, 1] 2 2 (- 1) 1 (- 1) 1 = Inr hist0
         \<and> mat_max hist0 = 1
         \<and> duet_hist [0, 1 / 2] [0, - 1 / 2] [2, 1] 2 2 (- 1) 1 (- 1) 1 = Inr hist
         \<and> mat_max hist = 1)"
proof -
  have h1: "list_all (\<lambda>w. 0 \<le> w) [2, 1 :: real]" by simp
  have h2: "(2 :: nat) \<le> 2" by simp
  have h3: "\<exists>x\<in>set (concat (histogram2d [0, 1 / 2] [0, - 1 / 2] 2 2 (- 1) 1 (- 1) 1 [2, 1])). 0 < x"
    by code_simp
  show ?thesis
    using duet_hist_normalized [OF h1 h2 h3] h1 h2 h3 by blast
qed

text \<open>
  C5 as stated fails for a silent mixture: one bin inside the bounds with
  weight 0.  The accumulated histogram is zero everywhere, its maximum is
  not positive, and the division by that maximum leaves no number in it.
\<close>

theorem duet_hist_silent_counterexample:
  "\<not> (0 < mat_max (histogram2d [0] [0] 2 2 (- 1) 1 (- 1) 1 [0]))
   \<and> duet_hist0 [0] [0] [0] 2 2 (- 1) 1 (- 1) 1 = Inl NotANumber
   \<and> duet_hist [0] [0] [0] 2 2 (- 1) 1 (- 1) 1 = Inl NotANumber"
  by code_simp

section \<open>Properties of the DUET masks\<close>

lemma is_matrix_score:
  assumes "is_matrix wmat r c" "is_matrix X1 r c" "is_matrix X2 r c"
  shows "is_matrix (score a d wmat X1 X2) r c"
  unfolding score_def using assms by (intro is_matrix_map2 is_matrix_map2_zip)

lemma mask_step_shape:
  assumes "is_matrix sc r c" "is_matrix (fst st) r c" "is_matrix (snd st) r c"
  shows "is_matrix (fst (mask_step i sc st)) r c \<and> is_matrix (snd (mask_step i sc st)) r c"
  using assms by (simp add: mask_step_def Let_def is_matrix_map2 is_matrix_map2_zip)

lemma mask_step_nth:
  assumes "is_matrix sc r c" "is_matrix (fst st) r c" "is_matrix (snd st) r c" "k < r" "t < c"
  shows "fst (mask_step i sc st) ! k ! t
           = (if below (sc ! k ! t) (fst st ! k ! t) then Some (sc ! k ! t) else fst st ! k ! t)"
    and "snd (mask_step i sc st) ! k ! t
           = (if below (sc ! k ! t) (fst st ! k ! t) then i else snd st ! k ! t)"
proof -
  have m: "is_matrix (map2 (map2 below) sc (fst st)) r c"
    using assms by (simp add: is_matrix_map2)
  have z: "is_matrix (map2 zip sc (fst st)) r c"
    using assms by (simp add: is_matrix_map2_zip)
  have b: "map2 (map2 below) sc (fst st) ! k ! t = below (sc ! k ! t) (fst st ! k ! t)"
    by (rule nth_map2_map2 [OF assms(1,2,4,5)])
  have p: "map2 zip sc (fst st) ! k ! t = (sc ! k ! t, fst st ! k ! t)"
    by (rule nth_map2_zip [OF assms(1,2,4,5)])
  show "fst (mask_step i sc st) ! k ! t
           = (if below (sc ! k ! t) (fst st ! k ! t) then Some (sc ! k ! t) else fst st ! k ! t)"
    unfolding mask_step_def Let_def fst_conv
    by (subst nth_map2_map2 [OF m z \<open>k < r\<close> \<open>t < c\<close>]) (simp add: b p)
  show "snd (mask_step i sc st) ! k ! t
           = (if below (sc ! k ! t) (fst st ! k ! t) then i else snd st ! k ! t)"
    unfolding mask_step_def Let_def snd_conv
    by (subst nth_map2_map2 [OF m assms(3) \<open>k < r\<close> \<open>t < c\<close>]) (simp add: b)
qed

lemma mask_fold_Suc: "mask_fold S r c (Suc n) = mask_step n (S n) (mask_fold S r c n)"
  by (simp add: mask_fold_def)

lemma mask_fold_shape:
  assumes "\<And>i. i < n \<Longrightarrow> is_matrix (S i) r c"
  shows "is_matrix (fst (mask_fold S r c n)) r c \<and> is_matrix (snd (mask_fold S r c n)) r c"
  using assms
proof (induction n)
  case 0
  show ?case by (simp add: mask_fold_def is_matrix_replicate)
next
  case (Suc n)
  then show ?case by (simp add: mask_fold_Suc mask_step_shape)
qed

lemma mask_fold_best:
  assumes "\<And>i. i < n \<Longrightarrow> is_matrix (S i) r c" "0 < n" "k < r" "t < c"
  shows "snd (mask_fold S r c n) ! k ! t < n
       \<and> fst (mask_fold S r c n) ! k ! t = Some (S (snd (mask_fold S r c n) ! k ! t) ! k ! t)
       \<and> (\<forall>j<n. S (snd (mask_fold S r c n) ! k ! t) ! k ! t \<le> S j ! k ! t)
       \<and> (\<forall>j<snd (mask_fold S r c n) ! k ! t.
             S (snd (mask_fold S r c n) ! k ! t) ! k ! t < S j ! k ! t)"
  using assms
proof (induction n)
  case 0
  then show ?case by simp
next
  case (Suc n)
  have sh: "is_matrix (fst (mask_fold S r c n)) r c" "is_matrix (snd (mask_fold S r c n)) r c"
    using mask_fold_shape [of n S r c] Suc.prems(1) by simp_all
  have sn: "is_matrix (S n) r c" using Suc.prems(1) by simp
  note nth = mask_step_nth [OF sn sh \<open>k < r\<close> \<open>t < c\<close>]
  show ?case
  proof (cases "n = 0")
    case True
    then have "fst (mask_fold S r c n) ! k ! t = None"
      using \<open>k < r\<close> \<open>t < c\<close> by (simp add: mask_fold_def)
    then have "snd (mask_fold S r c (Suc n)) ! k ! t = n"
      "fst (mask_fold S r c (Suc n)) ! k ! t = Some (S n ! k ! t)"
      by (simp_all add: mask_fold_Suc nth below_def)
    then show ?thesis
      using True by simp
  next
    case False
    then have IH: "snd (mask_fold S r c n) ! k ! t < n"
      "fst (mask_fold S r c n) ! k ! t = Some (S (snd (mask_fold S r c n) ! k ! t) ! k ! t)"
      "\<forall>j<n. S (snd (mask_fold S r c n) ! k ! t) ! k ! t \<le> S j ! k ! t"
      "\<forall>j<snd (mask_fold S r c n) ! k ! t.
             S (snd (mask_fold S r c n) ! k ! t) ! k ! t < S j ! k ! t"
      using Suc.IH Suc.prems by simp_all
    show ?thesis
    proof (cases "S n ! k ! t < S (snd (mask_fold S r c n) ! k ! t) ! k ! t")
      case True
      then have "\<forall>j<Suc n. S n ! k ! t \<le> S j ! k ! t"
        using IH(3) by (metis less_Suc_eq less_eq_real_def order.strict_trans2 order_refl)
      moreover have "\<forall>j<n. S n ! k ! t < S j ! k ! t"
        using IH(3) True by (meson order.strict_trans2)
      ultimately show ?thesis
        using True IH by (simp add: mask_fold_Suc nth below_def)
    next
      case False
      then have "\<forall>j<Suc n. S (snd (mask_fold S r c n) ! k ! t) ! k ! t \<le> S j ! k ! t"
        using IH(3) by (metis less_Suc_eq not_less)
      then show ?thesis
        using False IH by (simp add: mask_fold_Suc nth below_def less_Suc_eq)
    qed
  qed
qed

lemma duet_bestind_best:
  assumes "is_matrix wmat (Lf - 1) Lt" "is_matrix X1 (Lf - 1) Lt" "is_matrix X2 (Lf - 1) Lt"
    and "0 < N" "k < Lf - 1" "t < Lt"
  shows "duet_bestind atnpeak deltapeak wmat X1 X2 Lf Lt N ! k ! t < N"
    and "\<forall>j<N. score (atnpeak ! (duet_bestind atnpeak deltapeak wmat X1 X2 Lf Lt N ! k ! t))
                     (deltapeak ! (duet_bestind atnpeak deltapeak wmat X1 X2 Lf Lt N ! k ! t))
                     wmat X1 X2 ! k ! t
                \<le> score (atnpeak ! j) (deltapeak ! j) wmat X1 X2 ! k ! t"
    and "\<forall>j<duet_bestind atnpeak deltapeak wmat X1 X2 Lf Lt N ! k ! t.
             score (atnpeak ! (duet_bestind atnpeak deltapeak wmat X1 X2 Lf Lt N ! k ! t))
                   (deltapeak ! (duet_bestind atnpeak deltapeak wmat X1 X2 Lf Lt N ! k ! t))
                   wmat X1 X2 ! k ! t
               < score (atnpeak ! j) (deltapeak ! j) wmat X1 X2 ! k ! t"
proof -
  have sh: "is_matrix (score (atnpeak ! i) (deltapeak ! i) wmat X1 X2) (Lf - 1) Lt" for i
    using assms(1-3) by (rule is_matrix_score)
  note best = mask_fold_best [of N "\<lambda>i. score (atnpeak ! i) (deltapeak ! i) wmat X1 X2"
      "Lf - 1" Lt k t, OF sh assms(4-6)]
  show "duet_bestind atnpeak deltapeak wmat X1 X2 Lf Lt N ! k ! t < N"
    using best by (simp add: duet_bestind_def duet_best_def)
  show "\<forall>j<N. score (atnpeak ! (duet_bestind atnpeak deltapeak wmat X1 X2 Lf Lt N ! k ! t))
                     (deltapeak ! (duet_bestind atnpeak deltapeak wmat X1 X2 Lf Lt N ! k ! t))
                     wmat X1 X2 ! k ! t
                \<le> score (atnpeak ! j) (deltapeak ! j) wmat X1 X2 ! k ! t"
    using best by (simp add: duet_bestind_def duet_best_def)
  show "\<forall>j<duet_bestind atnpeak deltapeak wmat X1 X2 Lf Lt N ! k ! t.
             score (atnpeak ! (duet_bestind atnpeak deltapeak wmat X1 X2 Lf Lt N ! k ! t))
                   (deltapeak ! (duet_bestind atnpeak deltapeak wmat X1 X2 Lf Lt N ! k ! t))
                   wmat X1 X2 ! k ! t
               < score (atnpeak ! j) (deltapeak ! j) wmat X1 X2 ! k ! t"
    using best by (simp add: duet_bestind_def duet_best_def)
qed

lemma is_matrix_duet_bestind:
  assumes "is_matrix wmat (Lf - 1) Lt" "is_matrix X1 (Lf - 1) Lt" "is_matrix X2 (Lf - 1) Lt"
  shows "is_matrix (duet_bestind atnpeak deltapeak wmat X1 X2 Lf Lt N) (Lf - 1) Lt"
proof -
  have sh: "is_matrix (score (atnpeak ! i) (deltapeak ! i) wmat X1 X2) (Lf - 1) Lt" for i
    using assms(1-3) by (rule is_matrix_score)
  show ?thesis
    using mask_fold_shape [of N "\<lambda>i. score (atnpeak ! i) (deltapeak ! i) wmat X1 X2" "Lf - 1" Lt, OF sh]
    by (simp add: duet_bestind_def duet_best_def)
qed

lemma duet_mask_nth:
  assumes "is_matrix bestind r c" "k < r" "t < c"
  shows "duet_mask i bestind ! k ! t = (bestind ! k ! t = i)"
  using assms by (simp add: duet_mask_def is_matrix_length is_matrix_nth)


text \<open>
  C2.  The spectrograms and the frequency matrix have \<open>Lf - 1\<close> rows (the
  DC row is gone) and \<open>Lt\<close> columns, and there is at least one source.  At
  every bin \<open>(k, t)\<close> of these arrays, which is row \<open>k + 1 > 0\<close> of the
  full spectrogram: exactly one of the \<open>N\<close> masks is set, so the masks sum
  to 1; the row of the DC bin handed to the inverse transform is zero for
  every source; the mask that is set is the one of \<open>bestind\<close>, whose score
  is minimal among all sources and strictly below the score of every
  source of lower index, so that on a tie the lower index is chosen.
\<close>

theorem duet_masks_partition:
  assumes wmat: "is_matrix wmat (Lf - 1) Lt"
    and X1: "is_matrix X1 (Lf - 1) Lt"
    and X2: "is_matrix X2 (Lf - 1) Lt"
    and N: "0 < N" and k: "k < Lf - 1" and t: "t < Lt"
  shows "(\<exists>!i. i < N \<and> duet_mask i (duet_bestind atnpeak deltapeak wmat X1 X2 Lf Lt N) ! k ! t)
       \<and> (\<Sum>i<N. if duet_mask i (duet_bestind atnpeak deltapeak wmat X1 X2 Lf Lt N) ! k ! t
                  then 1 else 0) = (1 :: nat)
       \<and> (\<forall>i<N. duet_Xm i atnpeak deltapeak wmat X1 X2 Lt
                   (duet_bestind atnpeak deltapeak wmat X1 X2 Lf Lt N) ! 0 = replicate Lt 0)
       \<and> duet_mask (duet_bestind atnpeak deltapeak wmat X1 X2 Lf Lt N ! k ! t)
                   (duet_bestind atnpeak deltapeak wmat X1 X2 Lf Lt N) ! k ! t
       \<and> (\<forall>j<N. score (atnpeak ! (duet_bestind atnpeak deltapeak wmat X1 X2 Lf Lt N ! k ! t))
                     (deltapeak ! (duet_bestind atnpeak deltapeak wmat X1 X2 Lf Lt N ! k ! t))
                     wmat X1 X2 ! k ! t
                \<le> score (atnpeak ! j) (deltapeak ! j) wmat X1 X2 ! k ! t)
       \<and> (\<forall>j<duet_bestind atnpeak deltapeak wmat X1 X2 Lf Lt N ! k ! t.
             score (atnpeak ! (duet_bestind atnpeak deltapeak wmat X1 X2 Lf Lt N ! k ! t))
                   (deltapeak ! (duet_bestind atnpeak deltapeak wmat X1 X2 Lf Lt N ! k ! t))
                   wmat X1 X2 ! k ! t
               < score (atnpeak ! j) (deltapeak ! j) wmat X1 X2 ! k ! t)"
proof -
  define bestind where "bestind = duet_bestind atnpeak deltapeak wmat X1 X2 Lf Lt N"
  have sh: "is_matrix bestind (Lf - 1) Lt"
    unfolding bestind_def using wmat X1 X2 by (rule is_matrix_duet_bestind)
  have m: "duet_mask i bestind ! k ! t = (bestind ! k ! t = i)" for i
    using sh k t by (rule duet_mask_nth)
  note best = duet_bestind_best [OF wmat X1 X2 N k t, of atnpeak deltapeak, folded bestind_def]
  have one: "\<exists>!i. i < N \<and> duet_mask i bestind ! k ! t"
    using best(1) by (auto simp add: m)
  have "(\<Sum>i<N. if duet_mask i bestind ! k ! t then 1 else 0)
          = (\<Sum>i\<in>{..<N}. if bestind ! k ! t = i then 1 else (0 :: nat))"
    by (simp add: m)
  also have "\<dots> = 1"
    using best(1) by (simp add: sum.delta)
  finally have total: "(\<Sum>i<N. if duet_mask i bestind ! k ! t then 1 else 0) = (1 :: nat)" .
  have dc: "\<forall>i<N. duet_Xm i atnpeak deltapeak wmat X1 X2 Lt bestind ! 0 = replicate Lt 0"
    by (simp add: duet_Xm_def)
  show ?thesis
    unfolding bestind_def [symmetric]
    using one total dc best(2,3) by (simp add: m)
qed

theorem duet_masks_partition_witness:
  "is_matrix [[1, 1 :: real]] (2 - 1) 2 \<and> is_matrix [[1, 2 :: complex]] (2 - 1) 2
   \<and> is_matrix [[1, 3 :: complex]] (2 - 1) 2 \<and> (0 :: nat) < 2 \<and> (0 :: nat) < 2 - 1 \<and> (1 :: nat) < 2
   \<and> (\<exists>!i. i < 2 \<and> duet_mask i (duet_bestind [1, 1] [0, 0] [[1, 1]] [[1, 2]] [[1, 3]] 2 2 2) ! 0 ! 1)
   \<and> (\<Sum>i<2. if duet_mask i (duet_bestind [1, 1] [0, 0] [[1, 1]] [[1, 2]] [[1, 3]] 2 2 2) ! 0 ! 1
              then 1 else 0) = (1 :: nat)"
proof -
  have h1: "is_matrix [[1, 1 :: real]] (2 - 1) 2" by (simp add: is_matrix_def)
  have h2: "is_matrix [[1, 2 :: complex]] (2 - 1) 2" by (simp add: is_matrix_def)
  have h3: "is_matrix [[1, 3 :: complex]] (2 - 1) 2" by (simp add: is_matrix_def)
  have h4: "(0 :: nat) < 2" by simp
  have h5: "(0 :: nat) < 2 - 1" by simp
  have h6: "(1 :: nat) < 2" by simp
  show ?thesis
    using duet_masks_partition [OF h1 h2 h3 h4 h5 h6, of "[1, 1]" "[0, 0]"] h1 h2 h3 h4 h5 h6
    by blast
qed

section \<open>Properties of the estimator on a mono mixture\<close>

text \<open>
  C9.  A mixture of a single row never yields a result: \<^verbatim>\<open>duet\<close> fails.
  When the transform of that row succeeds, the failure is the read of the
  second channel row \<^verbatim>\<open>x[1, :]\<close>, the error \<open>InvalidChannelCount\<close>.
\<close>

theorem duet_mono_fails:
  assumes "length x = 1"
  shows "(\<exists>e. duet f_stft f_istft x sp ad pr = Inl e)
         \<and> (\<forall>s. f_stft (x ! 0) sp = Inr s \<longrightarrow>
                duet f_stft f_istft x sp ad pr = Inl InvalidChannelCount)"
  using assms
  by (cases "f_stft (x ! 0) sp") (auto simp add: duet_def bind_def channel_def split: prod.splits)

theorem duet_mono_fails_witness:
  "length [[0, 0, 0 :: real]] = 1
   \<and> duet (\<lambda>x sp. Inr ([[0], [1]], [[0], [1]], [0, 1], [0])) (\<lambda>X sp. Inr [0]) [[0, 0, 0]]
        \<lparr>winlen = 2, wintype = Hamming, overlap = 1, numfreq = 2, sampfreq = 44100\<rparr>
        \<lparr>amin = -3, amax = 3, anum = 50, dmin = -3, dmax = 3, dnum = 50\<rparr>
        \<lparr>thr = 1 / 2, a_mindist = 5, d_mindist = 5, nsrc = 2\<rparr>
      = Inl InvalidChannelCount"
  using duet_mono_fails [where x = "[[0, 0, 0]]"
      and f_stft = "\<lambda>x sp. Inr ([[0], [1]], [[0], [1]], [0, 1], [0])"
      and f_istft = "\<lambda>X sp. Inr [0]"
      and sp = "\<lparr>winlen = 2, wintype = Hamming, overlap = 1, numfreq = 2, sampfreq = 44100\<rparr>"
      and ad = "\<lparr>amin = -3, amax = 3, anum = 50, dmin = -3, dmax = 3, dnum = 50\<rparr>"
      and pr = "\<lparr>thr = 1 / 2, a_mindist = 5, d_mindist = 5, nsrc = 2\<rparr>"]
  by simp

section \<open>Properties of the buffer arithmetic\<close>

text \<open>
  C8 at a failing input.  Two mono buffers of two samples each, at the
  same rate: \<open>[1, 2]\<close> minus \<open>[5, 5]\<close>.  The left operand is not the longer
  one, so the branch that copies the right operand runs and subtracts the
  left operand from it: the result is \<open>[4, 3]\<close>, the difference with its
  sign turned, in the newer buffer and in the older one alike.
\<close>

theorem audio_sub_swaps_operands:
  "audio_sub \<lparr>audio_data = [[1, 2]], sample_rate = 44100\<rparr>
             \<lparr>audio_data = [[5, 5]], sample_rate = 44100\<rparr>
     = Inr \<lparr>audio_data = [[4, 3]], sample_rate = 44100\<rparr>
   \<and> audio_sub_old \<lparr>AudioData = [[1], [2]], nChannels = 1, SampleRate = 44100\<rparr>
                   \<lparr>AudioData = [[5], [5]], nChannels = 1, SampleRate = 44100\<rparr>
     = Inr \<lparr>AudioData = [[4], [3]], nChannels = 1, SampleRate = 44100\<rparr>"
  by code_simp

text \<open>
  What the newer buffer does check: operands with different channel counts
  fail with \<open>ChannelMismatch\<close>, and operands with equal channel counts and
  different sample rates fail with \<open>RateMismatch\<close>.
\<close>

lemma audio_mismatch:
  "num_channels a \<noteq> num_channels b \<Longrightarrow> audio_add a b = Inl ChannelMismatch"
  "num_channels a \<noteq> num_channels b \<Longrightarrow> audio_sub a b = Inl ChannelMismatch"
  "num_channels a = num_channels b \<Longrightarrow> sample_rate a \<noteq> sample_rate b
     \<Longrightarrow> audio_add a b = Inl RateMismatch"
  "num_channels a = num_channels b \<Longrightarrow> sample_rate a \<noteq> sample_rate b
     \<Longrightarrow> audio_sub a b = Inl RateMismatch"
  by (simp_all add: audio_add_def audio_sub_def)

text \<open>
  Two more readings of the same code.  In the newer buffer the slice
  \<^verbatim>\<open>combined[0:n]\<close> runs over the channel axis, so buffers of different
  lengths are not zero-extended: the shapes cannot be broadcast.  The
  older buffer adds two buffers of different sample rates.
\<close>

lemma audio_add_no_zero_extension:
  "audio_add \<lparr>audio_data = [[1, 2, 3]], sample_rate = 44100\<rparr>
             \<lparr>audio_data = [[5, 5]], sample_rate = 44100\<rparr> = Inl BroadcastError"
  by code_simp

lemma audio_add_old_ignores_rates:
  "audio_add_old \<lparr>AudioData = [[1], [2], [3]], nChannels = 1, SampleRate = 44100\<rparr>
                 \<lparr>AudioData = [[5], [5]], nChannels = 1, SampleRate = 8000\<rparr>
     = Inr \<lparr>AudioData = [[6], [7], [3]], nChannels = 1, SampleRate = 44100\<rparr>"
  by code_simp

section \<open>Properties of the similarity matrix\<close>

lemma scaled_columns_0: "scaled_columns M 0 = M"
  by (simp add: scaled_columns_def map_nth)

lemma is_matrix_scaled_columns: "is_matrix M r c \<Longrightarrow> is_matrix (scaled_columns M n) r c"
  by (simp add: scaled_columns_def is_matrix_def list_all_length)

lemma scaled_columns_nth:
  assumes "is_matrix M r c" "k < r" "j < c"
  shows "scaled_columns M n ! k ! j
           = (if j < n then M ! k ! j / (col_norm M j + EPS) else M ! k ! j)"
  using assms by (simp add: scaled_columns_def is_matrix_length is_matrix_nth)

lemma column_scaled_columns:
  assumes "is_matrix M r c" "n < c"
  shows "column (scaled_columns M n) n = column M n"
proof (rule nth_equalityI)
  show "length (column (scaled_columns M n) n) = length (column M n)"
    by (simp add: column_def scaled_columns_def)
  fix k assume "k < length (column (scaled_columns M n) n)"
  then have k: "k < r" using assms(1) by (simp add: column_def scaled_columns_def is_matrix_length)
  then have "k < length M" using assms(1) by (simp add: is_matrix_length)
  then show "column (scaled_columns M n) n ! k = column M n ! k"
    using scaled_columns_nth [OF assms(1) k assms(2), of n]
    by (simp add: column_def scaled_columns_def)
qed

lemma set_column_scaled_columns:
  assumes "is_matrix M r c" "n < c"
  shows "set_column (scaled_columns M n) n (map (\<lambda>x. x / (col_norm M n + EPS)) (column M n))
           = scaled_columns M (Suc n)"
proof (rule nth_equalityI)
  show len: "length (set_column (scaled_columns M n) n
                 (map (\<lambda>x. x / (col_norm M n + EPS)) (column M n)))
               = length (scaled_columns M (Suc n))"
    by (simp add: set_column_def scaled_columns_def column_def)
  fix k assume "k < length (set_column (scaled_columns M n) n
                 (map (\<lambda>x. x / (col_norm M n + EPS)) (column M n)))"
  then have kM: "k < length M" by (simp add: set_column_def scaled_columns_def column_def)
  then have k: "k < r" using assms(1) by (simp add: is_matrix_length)
  have lk: "length (M ! k) = c" using assms(1) k by (rule is_matrix_nth)
  have row: "set_column (scaled_columns M n) n
                 (map (\<lambda>x. x / (col_norm M n + EPS)) (column M n)) ! k
               = (scaled_columns M n ! k)[n := M ! k ! n / (col_norm M n + EPS)]"
    using kM by (simp add: set_column_def scaled_columns_def column_def)
  show "set_column (scaled_columns M n) n
                 (map (\<lambda>x. x / (col_norm M n + EPS)) (column M n)) ! k
          = scaled_columns M (Suc n) ! k"
    unfolding row
  proof (rule nth_equalityI)
    show "length ((scaled_columns M n ! k)[n := M ! k ! n / (col_norm M n + EPS)])
            = length (scaled_columns M (Suc n) ! k)"
      using kM by (simp add: scaled_columns_def)
    fix j assume "j < length ((scaled_columns M n ! k)[n := M ! k ! n / (col_norm M n + EPS)])"
    then have j: "j < c" using kM lk by (simp add: scaled_columns_def)
    have "length (scaled_columns M n ! k) = c" using kM lk by (simp add: scaled_columns_def)
    then show "(scaled_columns M n ! k)[n := M ! k ! n / (col_norm M n + EPS)] ! j
                 = scaled_columns M (Suc n) ! k ! j"
      using j scaled_columns_nth [OF assms(1) k j]
      by (cases "j = n") (auto simp add: less_Suc_eq)
  qed
qed

lemma sim_mat_step_scaled:
  assumes "is_matrix M r c" "n < c"
  shows "sim_mat_step \<lparr>base = a, transposed = True\<rparr> (s(a \<mapsto> scaled_columns M n)) n
           = s(a \<mapsto> scaled_columns M (Suc n))"
  by (simp add: sim_mat_step_def Let_def get_row_def set_row_def buffer_def
      column_scaled_columns [OF assms] set_column_scaled_columns [OF assms]
      col_norm_def [symmetric])

lemma sim_mat_loop_scaled:
  assumes "is_matrix M r c" "n \<le> c"
  shows "foldl (sim_mat_step \<lparr>base = a, transposed = True\<rparr>) (s(a \<mapsto> M)) [0..<n]
           = s(a \<mapsto> scaled_columns M n)"
  using assms(2)
proof (induction n)
  case 0
  show ?case by (simp add: scaled_columns_0)
next
  case (Suc n)
  from Suc.prems have n: "n < c" and n': "n \<le> c" by simp_all
  note IH = Suc.IH [OF n']
  have "foldl (sim_mat_step \<lparr>base = a, transposed = True\<rparr>) (s(a \<mapsto> M)) [0..<Suc n]
          = sim_mat_step \<lparr>base = a, transposed = True\<rparr>
              (foldl (sim_mat_step \<lparr>base = a, transposed = True\<rparr>) (s(a \<mapsto> M)) [0..<n]) n"
    by simp
  also have "\<dots> = s(a \<mapsto> scaled_columns M (Suc n))"
    unfolding IH by (rule sim_mat_step_scaled [OF assms(1) n])
  finally show ?case .
qed

lemma dot_column:
  "dot (column M j) (column M j) = (\<Sum>i<length M. (M ! i ! j)\<^sup>2)"
proof -
  have "map2 (*) (column M j) (column M j) = map (\<lambda>row. (row ! j)\<^sup>2) M"
    by (induction M) (simp_all add: column_def power2_eq_square)
  then have "dot (column M j) (column M j) = sum_list (map (\<lambda>row. (row ! j)\<^sup>2) M)"
    by (simp add: dot_def)
  also have "\<dots> = (\<Sum>i<length M. (M ! i ! j)\<^sup>2)"
    by (simp add: sum_list_sum_nth atLeast0LessThan)
  finally show ?thesis .
qed

text \<open>
  C10.  The caller's array lives at address \<open>a\<close> and holds the \<open>Lf\<close> by
  \<open>Lt\<close> matrix \<open>M\<close>.  After the call the same address holds \<open>M\<close> with
  every column divided by its L2 norm plus \<open>EPS\<close>; this differs from \<open>M\<close>
  as soon as one column has a nonzero entry and a divisor other than 1; no
  other buffer of the store is touched.
\<close>

theorem sim_mat_mutates_argument:
  assumes s: "s a = Some M" and M: "is_matrix M Lf Lt" and Lf: "0 < Lf"
  shows "\<exists>M'. snd (sim_mat \<lparr>base = a, transposed = False\<rparr> s) a = Some M'
            \<and> is_matrix M' Lf Lt
            \<and> (\<forall>k<Lf. \<forall>j<Lt. M' ! k ! j = M ! k ! j / (sqrt (\<Sum>i<Lf. (M ! i ! j)\<^sup>2) + EPS))
            \<and> ((\<exists>k<Lf. \<exists>j<Lt. M ! k ! j \<noteq> 0 \<and> sqrt (\<Sum>i<Lf. (M ! i ! j)\<^sup>2) + EPS \<noteq> 1)
                 \<longrightarrow> M' \<noteq> M)
            \<and> (\<forall>b. b \<noteq> a \<longrightarrow> snd (sim_mat \<lparr>base = a, transposed = False\<rparr> s) b = s b)"
proof -
  have sM: "s = s(a \<mapsto> M)" using s by (simp add: map_upd_triv)
  have nc: "ncols M = Lt" using M Lf by (rule is_matrix_ncols)
  have len: "length M = Lf" using M by (rule is_matrix_length)
  have "snd (sim_mat \<lparr>base = a, transposed = False\<rparr> s)
          = foldl (sim_mat_step \<lparr>base = a, transposed = True\<rparr>) s [0..<Lt]"
    using s nc by (simp add: sim_mat_def Let_def shape_def buffer_def T_def)
  also have "\<dots> = s(a \<mapsto> scaled_columns M Lt)"
    using sim_mat_loop_scaled [OF M order_refl, of a s] sM by simp
  finally have res: "snd (sim_mat \<lparr>base = a, transposed = False\<rparr> s) = s(a \<mapsto> scaled_columns M Lt)" .
  have entries: "scaled_columns M Lt ! k ! j = M ! k ! j / (sqrt (\<Sum>i<Lf. (M ! i ! j)\<^sup>2) + EPS)"
    if "k < Lf" "j < Lt" for k j
    using scaled_columns_nth [OF M that, of Lt] that(2)
    by (simp add: col_norm_def dot_column len)
  have changed: "scaled_columns M Lt \<noteq> M"
    if "k < Lf" "j < Lt" "M ! k ! j \<noteq> 0" "sqrt (\<Sum>i<Lf. (M ! i ! j)\<^sup>2) + EPS \<noteq> 1" for k j
  proof
    define d where "d = sqrt (\<Sum>i<Lf. (M ! i ! j)\<^sup>2) + EPS"
    assume "scaled_columns M Lt = M"
    then have "M ! k ! j = M ! k ! j / d"
      using entries [OF that(1,2)] by (simp add: d_def)
    moreover have "0 < d"
      unfolding d_def by (intro add_nonneg_pos) (simp_all add: EPS_def sum_nonneg)
    ultimately have "M ! k ! j * d = M ! k ! j" by (simp add: field_simps)
    then have "d = 1" using that(3) by simp
    then show False using that(4) by (simp add: d_def)
  qed
  show ?thesis
    using res entries changed is_matrix_scaled_columns [OF M, of Lt] by auto
qed

theorem sim_mat_mutates_argument_witness:
  "[0 \<mapsto> [[3, 0], [4, 0 :: real]]] 0 = Some [[3, 0], [4, 0]]
   \<and> is_matrix [[3, 0], [4, 0 :: real]] 2 2 \<and> (0 :: nat) < 2
   \<and> snd (sim_mat \<lparr>base = 0, transposed = False\<rparr> [0 \<mapsto> [[3, 0], [4, 0]]]) 0
        \<noteq> Some [[3, 0], [4, 0]]"
proof -
  have h1: "[0 \<mapsto> [[3, 0], [4, 0 :: real]]] (0 :: nat) = Some [[3, 0], [4, 0]]" by simp
  have h2: "is_matrix [[3, 0], [4, 0 :: real]] 2 2" by (simp add: is_matrix_def)
  have h3: "(0 :: nat) < 2" by simp
  have "(\<Sum>i<2. ([[3, 0], [4, 0 :: real]] ! i ! 0)\<^sup>2) = 25"
    by (simp add: numeral_2_eq_2)
  then have d: "sqrt (\<Sum>i<2. ([[3, 0], [4, 0 :: real]] ! i ! 0)\<^sup>2) + EPS \<noteq> 1"
    by (simp add: EPS_def)
  have e: "[[3, 0], [4, 0 :: real]] ! 0 ! 0 \<noteq> 0" by simp
  have "\<exists>k<2. \<exists>j<2. [[3, 0], [4, 0 :: real]] ! k ! j \<noteq> 0
           \<and> sqrt (\<Sum>i<2. ([[3, 0], [4, 0 :: real]] ! i ! j)\<^sup>2) + EPS \<noteq> 1"
    using d e h3 by blast
  then show ?thesis
    using sim_mat_mutates_argument [where s = "[0 \<mapsto> [[3, 0], [4, 0]]]" and a = 0
        and M = "[[3, 0], [4, 0]]" and Lf = 2 and Lt = 2, OF h1 h2 h3] h1 h2 h3
    by auto
qed

end
